theory Spec2Isabelle
  imports Complex_Main
begin

section \<open>Values and errors\<close>

text \<open>
  The model of \<^verbatim>\<open>flare/gp.py\<close> (class \<^verbatim>\<open>GaussianProcess\<close>). Floats are modelled
  as reals, a one-dimensional array as a list and a matrix as the list of its rows.
\<close>

type_synonym vec = "real list"
type_synonym mat = "real list list"

text \<open>
  The exceptions of the source are values. \<open>Raised\<close> is whatever an external
  collaborator (kernel registry, covariance builder, optimizer, linear algebra) raises.
\<close>

datatype error =
    AssertionError
  | KeyError
  | TypeError
  | IndexError
  | ValueError
  | AttributeError
  | RuntimeError
  | Raised string

text \<open>
  A cached array attribute holds \<^verbatim>\<open>None\<close>, an array, or (after \<^verbatim>\<open>from_dict\<close>, which
  wraps a missing entry in \<^verbatim>\<open>np.array(None)\<close>) a zero-dimensional array around
  \<^verbatim>\<open>None\<close>; the last one is not \<^verbatim>\<open>None\<close> for the \<^verbatim>\<open>is None\<close> tests of the source.
\<close>

datatype 'a cached = PyNone | NdNone | Nd 'a

text \<open>An upper bound of the optimizer may be \<^verbatim>\<open>np.inf\<close>.\<close>

datatype bound = Finite real | Infinity

type_synonym bounds = "(real \<times> bound) list"

datatype cutoff_func = quadratic_cutoff

section \<open>The hyperparameter mask\<close>

text \<open>
  The mask is a Python dict; each key the constructor reads is an optional field
  (\<open>None\<close>: the key is absent). \<open>mask_map\<close> and \<open>mask_bounds\<close> are the keys
  \<^verbatim>\<open>'map'\<close> and \<^verbatim>\<open>'bounds'\<close>.
\<close>

record mask_dict =
  nspec :: "int option"
  spec_mask :: "int list option"
  nbond :: "int option"
  bond_mask :: "int list option"
  ntriplet :: "int option"
  triplet_mask :: "int list option"
  mask_map :: "int list option"
  original :: "vec option"
  mask_bounds :: "bounds option"

text \<open>The \<^verbatim>\<open>hyps_mask\<close> argument: \<^verbatim>\<open>None\<close>, a dict, or a value of any other type.\<close>

datatype mask_arg = ArgNone | ArgOther | ArgDict mask_dict

definition py_assert :: "bool \<Rightarrow> error + unit" where
  "py_assert b = (if b then Inr () else Inl AssertionError)"

text \<open>
  The test \<^verbatim>\<open>np.max(mask) < n\<close> on a list of Python integers and a Python integer.
  numpy raises on an empty list. A list whose entries all lie in the signed 64-bit
  range becomes an \<^verbatim>\<open>int64\<close> array: its maximum is exact, and so is the comparison
  with a bound in that range. As soon as an entry or the bound leaves the range,
  numpy switches to \<^verbatim>\<open>uint64\<close>, \<^verbatim>\<open>float64\<close> (with rounding) or object arrays,
  by promotion rules that differ between its versions; what the test gives there is
  the parameter \<open>W\<close> of the model.
\<close>

type_synonym wide_test = "int list \<Rightarrow> int \<Rightarrow> error + bool"

definition in_int64 :: "int \<Rightarrow> bool" where
  "in_int64 x = (- (2 ^ 63) \<le> x \<and> x < 2 ^ 63)"

definition np_max_less :: "wide_test \<Rightarrow> int list \<Rightarrow> int \<Rightarrow> error + bool" where
  "np_max_less W xs n =
     (case xs of
        [] \<Rightarrow> Inl ValueError
      | x # rest \<Rightarrow>
          if (\<forall>y \<in> set xs. in_int64 y) \<and> in_int64 n then Inr (fold max rest x < n)
          else W xs n)"

text \<open>
  Lines 88--95 and 97--105 of \<^verbatim>\<open>__init__\<close>: the number of groups of one interaction
  order (\<^verbatim>\<open>n2b\<close> with exponent 2 on \<^verbatim>\<open>nbond\<close>/\<^verbatim>\<open>bond_mask\<close>, \<^verbatim>\<open>n3b\<close> with exponent 3 on
  \<^verbatim>\<open>ntriplet\<close>/\<^verbatim>\<open>triplet_mask\<close>). The mask is read only when the count is positive:
  a missing mask key is a \<^verbatim>\<open>KeyError\<close>, then the two assertions follow in the
  source's order.
\<close>

definition group_count ::
  "wide_test \<Rightarrow> int option \<Rightarrow> int list option \<Rightarrow> int \<Rightarrow> nat \<Rightarrow> error + int" where
  "group_count W cnt msk ns p =
     (case cnt of
        None \<Rightarrow> Inr 0
      | Some n \<Rightarrow>
          if n > 0 then
            (case msk of
               None \<Rightarrow> Inl KeyError
             | Some m \<Rightarrow>
                 (case np_max_less W m n of
                    Inl e \<Rightarrow> Inl e
                  | Inr below \<Rightarrow>
                      if \<not> below then Inl AssertionError
                      else if int (length m) \<noteq> ns ^ p then Inl AssertionError
                      else Inr n))
          else Inr n)"

text \<open>
  Lines 81--118 of \<^verbatim>\<open>__init__\<close>: the checks on a mask dict, for a hyperparameter
  vector of length \<open>nh\<close>.
\<close>

definition check_hyps_mask :: "wide_test \<Rightarrow> mask_dict \<Rightarrow> nat \<Rightarrow> error + unit" where
  "check_hyps_mask W m nh =
     (if nspec m = None then Inl AssertionError
      else if spec_mask m = None then Inl AssertionError
      else
        (case group_count W (nbond m) (bond_mask m) (the (nspec m)) 2 of
           Inl e \<Rightarrow> Inl e
         | Inr n2b \<Rightarrow>
             (case group_count W (ntriplet m) (triplet_mask m) (the (nspec m)) 3 of
                Inl e \<Rightarrow> Inl e
              | Inr n3b \<Rightarrow>
                  if \<not> (n2b + n3b) > 0 then Inl AssertionError
                  else
                    (case mask_map m of
                       Some mp \<Rightarrow>
                         (case original m of
                            None \<Rightarrow> Inl AssertionError
                          | Some orig \<Rightarrow>
                              if n2b * 2 + n3b * 2 + 1 \<noteq> int (length orig)
                              then Inl AssertionError
                              else py_assert (length mp = nh))
                     | None \<Rightarrow> py_assert (n2b * 2 + n3b * 2 + 1 = int nh)))))"

section \<open>The model object\<close>

text \<open>
  Kernels are opaque callables over environments of type \<open>'e\<close>. The force kernel
  takes two environments, two components, the hyperparameters, the cutoffs, and
  optionally a cutoff function and a mask; \<^verbatim>\<open>kernel.__name__\<close> is the first
  component of a named kernel.
\<close>

type_synonym 'e force_kernel =
  "'e \<Rightarrow> 'e \<Rightarrow> int \<Rightarrow> int \<Rightarrow> vec \<Rightarrow> vec \<Rightarrow> cutoff_func option \<Rightarrow> mask_dict option \<Rightarrow> real"
type_synonym 'e grad_kernel =
  "'e \<Rightarrow> 'e \<Rightarrow> int \<Rightarrow> int \<Rightarrow> vec \<Rightarrow> vec \<Rightarrow> cutoff_func option \<Rightarrow> mask_dict option \<Rightarrow> real \<times> vec"
type_synonym 'e energy_force_kernel_fn =
  "'e \<Rightarrow> 'e \<Rightarrow> int \<Rightarrow> vec \<Rightarrow> vec \<Rightarrow> mask_dict option \<Rightarrow> real"
type_synonym 'e energy_kernel_fn =
  "'e \<Rightarrow> 'e \<Rightarrow> vec \<Rightarrow> vec \<Rightarrow> mask_dict option \<Rightarrow> real"

record 'e gp =
  kernel :: "'e force_kernel"
  kernel_grad :: "'e grad_kernel"
  energy_kernel :: "'e energy_kernel_fn option"
  energy_force_kernel :: "'e energy_force_kernel_fn option"
  kernel_name :: string
  hyps :: vec
  hyp_labels :: "string list option"
  cutoffs :: vec
  algo :: string
  bounds :: "bounds option"
  training_data :: "'e list"
  training_labels :: "vec list"
  training_labels_np :: vec
  maxiter :: int
  par :: bool
  per_atom_par :: bool
  no_cpus :: "int option"
  gp_output :: "string option"
  ky_mat :: "mat cached"
  l_mat :: "mat cached"
  alpha :: "vec cached"
  ky_mat_inv :: "mat cached"
  l_mat_inv :: "mat cached"
  likelihood :: "real option"
  likelihood_gradient :: "vec option"
  hyps_mask :: "mask_dict option"
  multihyps :: bool

text \<open>The arguments of \<^verbatim>\<open>__init__\<close>.\<close>

record 'e init_args =
  arg_kernel :: "string \<times> 'e force_kernel"
  arg_kernel_grad :: "'e grad_kernel"
  arg_hyps :: vec
  arg_cutoffs :: vec
  arg_hyp_labels :: "string list option"
  arg_energy_force_kernel :: "'e energy_force_kernel_fn option"
  arg_energy_kernel :: "'e energy_kernel_fn option"
  arg_opt_algorithm :: string
  arg_maxiter :: int
  arg_par :: bool
  arg_no_cpus :: "int option"
  arg_per_atom_par :: bool
  arg_output :: "string option"
  arg_multihyps :: bool
  arg_hyps_mask :: mask_arg

text \<open>Lines 48--77 of \<^verbatim>\<open>__init__\<close>: the attributes before the mask is looked at.\<close>

definition init_fields :: "'e init_args \<Rightarrow> 'e gp" where
  "init_fields a =
     \<lparr> kernel = snd (arg_kernel a),
       kernel_grad = arg_kernel_grad a,
       energy_kernel = arg_energy_kernel a,
       energy_force_kernel = arg_energy_force_kernel a,
       kernel_name = fst (arg_kernel a),
       hyps = arg_hyps a,
       hyp_labels = arg_hyp_labels a,
       cutoffs = arg_cutoffs a,
       algo = arg_opt_algorithm a,
       bounds = None,
       training_data = [],
       training_labels = [],
       training_labels_np = [],
       maxiter = arg_maxiter a,
       par = arg_par a,
       per_atom_par = arg_per_atom_par a,
       no_cpus = arg_no_cpus a,
       gp_output = arg_output a,
       ky_mat = PyNone,
       l_mat = PyNone,
       alpha = PyNone,
       ky_mat_inv = PyNone,
       l_mat_inv = PyNone,
       likelihood = None,
       likelihood_gradient = None,
       hyps_mask = None,
       multihyps = False \<rparr>"

text \<open>
  \<^verbatim>\<open>GaussianProcess.__init__\<close>: the mask is validated and stored only when it is a
  dict and \<^verbatim>\<open>multihyps is True\<close>; otherwise it is dropped.
\<close>

definition init :: "wide_test \<Rightarrow> 'e init_args \<Rightarrow> error + 'e gp" where
  "init W a =
     (case arg_hyps_mask a of
        ArgDict m \<Rightarrow>
          if arg_multihyps a then
            (case check_hyps_mask W m (length (arg_hyps a)) of
               Inl e \<Rightarrow> Inl e
             | Inr u \<Rightarrow>
                 Inr ((init_fields a)
                       \<lparr> bounds := mask_bounds m, hyps_mask := Some m, multihyps := True \<rparr>))
          else Inr ((init_fields a) \<lparr> hyps_mask := None, multihyps := False \<rparr>)
      | ArgNone \<Rightarrow> Inr ((init_fields a) \<lparr> hyps_mask := None, multihyps := False \<rparr>)
      | ArgOther \<Rightarrow> Inr ((init_fields a) \<lparr> hyps_mask := None, multihyps := False \<rparr>))"

section \<open>The training set\<close>

text \<open>
  \<^verbatim>\<open>force_list_to_np\<close>: the two nested loops append one component at a time to
  \<^verbatim>\<open>forces_np\<close>.
\<close>

definition force_list_to_np :: "vec list \<Rightarrow> vec" where
  "force_list_to_np forces =
     fold (\<lambda>force forces_np. fold (\<lambda>force_comp acc. acc @ [force_comp]) force forces_np)
          forces []"

text \<open>
  Of a \<^verbatim>\<open>Structure\<close> only \<^verbatim>\<open>positions\<close> is read; the environment constructor
  \<^verbatim>\<open>AtomicEnvironment(struc, atom, cutoffs)\<close> is external (\<open>mk_env\<close> below).
\<close>

record struc =
  positions :: "vec list"

text \<open>\<^verbatim>\<open>forces[atom]\<close> on a Python list: an index below zero counts from the end.\<close>

definition py_getitem :: "'a list \<Rightarrow> int \<Rightarrow> error + 'a" where
  "py_getitem xs i =
     (if 0 \<le> i \<and> i < int (length xs) then Inr (xs ! nat i)
      else if i < 0 \<and> - int (length xs) \<le> i then Inr (xs ! nat (int (length xs) + i))
      else Inl IndexError)"

text \<open>
  The loop of \<^verbatim>\<open>update_db\<close>. An exception leaves the entries appended so far in
  place, so the state is returned beside the result.
\<close>

fun update_db_loop ::
  "(struc \<Rightarrow> int \<Rightarrow> vec \<Rightarrow> error + 'e) \<Rightarrow> struc \<Rightarrow> vec list \<Rightarrow> int list \<Rightarrow> 'e gp
     \<Rightarrow> (error + unit) \<times> 'e gp" where
  "update_db_loop mk_env st forces [] s = (Inr (), s)"
| "update_db_loop mk_env st forces (atom # rest) s =
     (case mk_env st atom (cutoffs s) of
        Inl e \<Rightarrow> (Inl e, s)
      | Inr env_curr \<Rightarrow>
          (case py_getitem forces atom of
             Inl e \<Rightarrow> (Inl e, s)
           | Inr forces_curr \<Rightarrow>
               update_db_loop mk_env st forces rest
                 (s\<lparr> training_data := training_data s @ [env_curr],
                     training_labels := training_labels s @ [forces_curr] \<rparr>)))"

definition update_db ::
  "(struc \<Rightarrow> int \<Rightarrow> vec \<Rightarrow> error + 'e) \<Rightarrow> struc \<Rightarrow> vec list \<Rightarrow> int list \<Rightarrow> 'e gp
     \<Rightarrow> (error + unit) \<times> 'e gp" where
  "update_db mk_env st forces custom_range s =
     (let noa = length (positions st);
          update_indices = (if custom_range \<noteq> [] then custom_range else map int [0..<noa])
      in case update_db_loop mk_env st forces update_indices s of
           (Inl e, s') \<Rightarrow> (Inl e, s')
         | (Inr u, s') \<Rightarrow>
             (Inr (), s'\<lparr> training_labels_np := force_list_to_np (training_labels s') \<rparr>))"

section \<open>Kernel vectors\<close>

text \<open>
  \<^verbatim>\<open>get_kernel_vector\<close>: entry \<open>m_index\<close> compares \<open>x\<close>, component \<open>d_1\<close>, with
  training entry \<open>m_index div 3\<close>, component \<open>ds[m_index mod 3]\<close>. The index into
  \<^verbatim>\<open>training_data\<close> is always in range.
\<close>

definition ds :: "int list" where
  "ds = [1, 2, 3]"

definition get_kernel_vector :: "'e gp \<Rightarrow> 'e \<Rightarrow> int \<Rightarrow> vec" where
  "get_kernel_vector s x d_1 =
     (let size = length (training_data s) * 3 in
      if multihyps s then
        map (\<lambda>m_index. kernel s x (training_data s ! (m_index div 3)) d_1 (ds ! (m_index mod 3))
                          (hyps s) (cutoffs s) None (hyps_mask s)) [0..<size]
      else
        map (\<lambda>m_index. kernel s x (training_data s ! (m_index div 3)) d_1 (ds ! (m_index mod 3))
                          (hyps s) (cutoffs s) None None) [0..<size])"

text \<open>
  \<^verbatim>\<open>get_kernel_vector_par\<close>: the same entries, computed by a worker pool and
  collected in submission order; with a mask the cutoff function is passed too.
\<close>

definition get_kernel_vector_par :: "'e gp \<Rightarrow> 'e \<Rightarrow> int \<Rightarrow> vec" where
  "get_kernel_vector_par s x d_1 =
     (let size = length (training_data s) * 3 in
      if multihyps s then
        map (\<lambda>m_index. kernel s x (training_data s ! (m_index div 3)) d_1 (ds ! (m_index mod 3))
                          (hyps s) (cutoffs s) (Some quadratic_cutoff) (hyps_mask s)) [0..<size]
      else
        map (\<lambda>m_index. kernel s x (training_data s ! (m_index div 3)) d_1 (ds ! (m_index mod 3))
                          (hyps s) (cutoffs s) None None) [0..<size])"

text \<open>
  \<^verbatim>\<open>en_kern_vec\<close>: \<^verbatim>\<open>energy_force_kernel\<close> defaults to \<^verbatim>\<open>None\<close>, and calling
  \<^verbatim>\<open>None\<close> is a \<^verbatim>\<open>TypeError\<close> as soon as the loop body runs once.
\<close>

definition en_kern_vec :: "'e gp \<Rightarrow> 'e \<Rightarrow> error + vec" where
  "en_kern_vec s x =
     (let size = length (training_data s) * 3 in
      case energy_force_kernel s of
        None \<Rightarrow> if size = 0 then Inr [] else Inl TypeError
      | Some efk \<Rightarrow>
          if multihyps s then
            Inr (map (\<lambda>m_index. efk (training_data s ! (m_index div 3)) x (ds ! (m_index mod 3))
                                   (hyps s) (cutoffs s) (hyps_mask s)) [0..<size])
          else
            Inr (map (\<lambda>m_index. efk (training_data s ! (m_index div 3)) x (ds ! (m_index mod 3))
                                   (hyps s) (cutoffs s) None) [0..<size]))"

section \<open>Linear algebra\<close>

definition dot :: "vec \<Rightarrow> vec \<Rightarrow> real" where
  "dot u v = sum_list (map2 (*) u v)"

text \<open>
  \<^verbatim>\<open>np.matmul\<close> of two vectors, where the second may be a cached attribute: numpy
  raises when it is not an array of the same length.
\<close>

definition matmul_vv :: "vec \<Rightarrow> vec cached \<Rightarrow> error + real" where
  "matmul_vv u c =
     (case c of
        Nd v \<Rightarrow> if length u = length v then Inr (dot u v) else Inl ValueError
      | PyNone \<Rightarrow> Inl ValueError
      | NdNone \<Rightarrow> Inl ValueError)"

definition ncols :: "mat \<Rightarrow> nat" where
  "ncols m = (case m of [] \<Rightarrow> 0 | r # rs \<Rightarrow> length r)"

text \<open>\<^verbatim>\<open>np.matmul\<close> of a vector and a cached matrix.\<close>

definition matmul_vm :: "vec \<Rightarrow> mat cached \<Rightarrow> error + vec" where
  "matmul_vm u c =
     (case c of
        Nd m \<Rightarrow>
          if length u = length m then Inr (map (\<lambda>j. dot u (map (\<lambda>r. r ! j) m)) [0..<ncols m])
          else Inl ValueError
      | PyNone \<Rightarrow> Inl ValueError
      | NdNone \<Rightarrow> Inl ValueError)"

text \<open>\<^verbatim>\<open>np.matmul\<close> of a matrix and a vector.\<close>

definition matmul_mv :: "mat \<Rightarrow> vec \<Rightarrow> error + vec" where
  "matmul_mv m v =
     (if ncols m = length v then Inr (map (\<lambda>r. dot r v) m) else Inl ValueError)"

text \<open>\<^verbatim>\<open>a.T @ a\<close>: the shapes always agree.\<close>

definition gram :: "mat \<Rightarrow> mat" where
  "gram a =
     map (\<lambda>i. map (\<lambda>j. dot (map (\<lambda>r. r ! i) a) (map (\<lambda>r. r ! j) a)) [0..<ncols a])
         [0..<ncols a]"

section \<open>External collaborators\<close>

text \<open>
  The covariance builders and likelihood functions of \<^verbatim>\<open>flare.gp_algebra\<close> and
  \<^verbatim>\<open>flare.gp_algebra_multi\<close>, the factorization routines of numpy and scipy and
  scipy's \<^verbatim>\<open>minimize\<close> are parameters of the model: each may raise. The hyperparameter
  gradient stack is a list of matrices.
\<close>

record options =
  disp :: bool
  gtol :: "real option"
  maxls :: "int option"
  opt_maxiter :: int
  xtol :: "real option"

text \<open>
  An \<^verbatim>\<open>OptimizeResult\<close>: \<^verbatim>\<open>x\<close>, \<^verbatim>\<open>fun\<close> and, for the methods that report one,
  \<^verbatim>\<open>jac\<close> (reading a missing attribute is an \<^verbatim>\<open>AttributeError\<close>).
\<close>

record opt_result =
  res_x :: vec
  res_fun :: real
  res_jac :: "vec option"

record 'e gp_algebra =
  get_ky_and_hyp ::
    "vec \<Rightarrow> 'e list \<Rightarrow> vec \<Rightarrow> 'e grad_kernel \<Rightarrow> vec \<Rightarrow> error + (mat list \<times> mat)"
  get_ky_and_hyp_par ::
    "vec \<Rightarrow> 'e list \<Rightarrow> vec \<Rightarrow> 'e grad_kernel \<Rightarrow> vec \<Rightarrow> error + (mat list \<times> mat)"
  get_ky_and_multihyp ::
    "vec \<Rightarrow> mask_dict option \<Rightarrow> 'e list \<Rightarrow> vec \<Rightarrow> 'e grad_kernel \<Rightarrow> vec
       \<Rightarrow> error + (mat list \<times> mat)"
  get_ky_and_multihyp_par ::
    "vec \<Rightarrow> mask_dict option \<Rightarrow> 'e list \<Rightarrow> vec \<Rightarrow> 'e grad_kernel \<Rightarrow> vec
       \<Rightarrow> error + (mat list \<times> mat)"
  get_like_grad_from_mats :: "mat \<Rightarrow> mat list \<Rightarrow> vec \<Rightarrow> error + (real \<times> vec)"
  get_ky_mat_update ::
    "mat cached \<Rightarrow> 'e list \<Rightarrow> ('e \<Rightarrow> int \<Rightarrow> vec) \<Rightarrow> vec \<Rightarrow> bool \<Rightarrow> int option \<Rightarrow> error + mat"
  cholesky :: "mat \<Rightarrow> error + mat"
  linalg_inv :: "mat \<Rightarrow> error + mat"
  solve_triangular :: "mat cached \<Rightarrow> vec \<Rightarrow> error + vec"

record 'e optimizer =
  get_neg_like_grad ::
    "vec \<Rightarrow> 'e list \<Rightarrow> vec \<Rightarrow> 'e grad_kernel \<Rightarrow> vec \<Rightarrow> string option \<Rightarrow> bool \<Rightarrow> int option
       \<Rightarrow> error + (real \<times> vec)"
  get_neg_like_grad_mask ::
    "vec \<Rightarrow> 'e list \<Rightarrow> vec \<Rightarrow> 'e grad_kernel \<Rightarrow> vec \<Rightarrow> string option \<Rightarrow> bool \<Rightarrow> int option
       \<Rightarrow> mask_dict option \<Rightarrow> error + (real \<times> vec)"
  minimize ::
    "(vec \<Rightarrow> error + (real \<times> vec)) \<Rightarrow> vec \<Rightarrow> string \<Rightarrow> bool \<Rightarrow> bounds option \<Rightarrow> options
       \<Rightarrow> error + opt_result"

section \<open>The factorization cache\<close>

text \<open>Lines 437--460 of \<^verbatim>\<open>set_L_alpha\<close>: the choice among the four builders.\<close>

definition build_ky :: "'e gp_algebra \<Rightarrow> 'e gp \<Rightarrow> error + (mat list \<times> mat)" where
  "build_ky A s =
     (if multihyps s then
        (if par s then
           get_ky_and_multihyp_par A (hyps s) (hyps_mask s) (training_data s)
             (training_labels_np s) (kernel_grad s) (cutoffs s)
         else
           get_ky_and_multihyp A (hyps s) (hyps_mask s) (training_data s)
             (training_labels_np s) (kernel_grad s) (cutoffs s))
      else
        (if par s then
           get_ky_and_hyp_par A (hyps s) (training_data s)
             (training_labels_np s) (kernel_grad s) (cutoffs s)
         else
           get_ky_and_hyp A (hyps s) (training_data s)
             (training_labels_np s) (kernel_grad s) (cutoffs s)))"

text \<open>
  \<^verbatim>\<open>set_L_alpha\<close>: every quantity is computed into a local first; the seven
  attributes are assigned at the end.
\<close>

definition set_L_alpha :: "'e gp_algebra \<Rightarrow> 'e gp \<Rightarrow> (error + unit) \<times> 'e gp" where
  "set_L_alpha A s =
     (case build_ky A s of
        Inl e \<Rightarrow> (Inl e, s)
      | Inr (hyp_mat, ky) \<Rightarrow>
          (case get_like_grad_from_mats A ky hyp_mat (training_labels_np s) of
             Inl e \<Rightarrow> (Inl e, s)
           | Inr (like, like_grad) \<Rightarrow>
               (case cholesky A ky of
                  Inl e \<Rightarrow> (Inl e, s)
                | Inr l \<Rightarrow>
                    (case linalg_inv A l of
                       Inl e \<Rightarrow> (Inl e, s)
                     | Inr li \<Rightarrow>
                         (case matmul_mv (gram li) (training_labels_np s) of
                            Inl e \<Rightarrow> (Inl e, s)
                          | Inr al \<Rightarrow>
                              (Inr (),
                               s\<lparr> ky_mat := Nd ky, l_mat := Nd l, alpha := Nd al,
                                  ky_mat_inv := Nd (gram li), l_mat_inv := Nd li,
                                  likelihood := Some like,
                                  likelihood_gradient := Some like_grad \<rparr>))))))"

text \<open>\<^verbatim>\<open>np.copy\<close> of a cached attribute: \<^verbatim>\<open>None\<close> becomes an array around it.\<close>

fun np_copy :: "'a cached \<Rightarrow> 'a cached" where
  "np_copy PyNone = NdNone"
| "np_copy NdNone = NdNone"
| "np_copy (Nd a) = Nd a"

text \<open>
  \<^verbatim>\<open>update_L_alpha\<close>: a first call falls back to \<^verbatim>\<open>set_L_alpha\<close>; otherwise the
  covariance matrix comes from the incremental builder and the likelihood pair is
  not assigned.
\<close>

definition update_L_alpha :: "'e gp_algebra \<Rightarrow> 'e gp \<Rightarrow> (error + unit) \<times> 'e gp" where
  "update_L_alpha A s =
     (if l_mat s = PyNone then set_L_alpha A s
      else
        (case get_ky_mat_update A (np_copy (ky_mat s)) (training_data s)
                (get_kernel_vector s) (hyps s) (par s) (no_cpus s) of
           Inl e \<Rightarrow> (Inl e, s)
         | Inr ky \<Rightarrow>
             (case cholesky A ky of
                Inl e \<Rightarrow> (Inl e, s)
              | Inr l \<Rightarrow>
                  (case linalg_inv A l of
                     Inl e \<Rightarrow> (Inl e, s)
                   | Inr li \<Rightarrow>
                       (case matmul_mv (gram li) (training_labels_np s) of
                          Inl e \<Rightarrow> (Inl e, s)
                        | Inr al \<Rightarrow>
                            (Inr (),
                             s\<lparr> ky_mat := Nd ky, l_mat := Nd l, alpha := Nd al,
                                ky_mat_inv := Nd (gram li), l_mat_inv := Nd li \<rparr>))))))"

text \<open>
  The test shared by \<^verbatim>\<open>check_L_alpha\<close> and the assertion of \<^verbatim>\<open>predict\<close>:
  \<^verbatim>\<open>alpha\<close> is not \<^verbatim>\<open>None\<close> and has three entries per training point. \<^verbatim>\<open>len\<close> of a
  zero-dimensional array is a \<^verbatim>\<open>TypeError\<close>.
\<close>

definition alpha_current :: "'e gp \<Rightarrow> error + bool" where
  "alpha_current s =
     (case alpha s of
        PyNone \<Rightarrow> Inr False
      | NdNone \<Rightarrow> Inl TypeError
      | Nd a \<Rightarrow> Inr (3 * length (training_data s) = length a))"

definition check_L_alpha :: "'e gp_algebra \<Rightarrow> 'e gp \<Rightarrow> (error + unit) \<times> 'e gp" where
  "check_L_alpha A s =
     (case alpha_current s of
        Inl e \<Rightarrow> (Inl e, s)
      | Inr ok \<Rightarrow> if \<not> ok then update_L_alpha A s else (Inr (), s))"

section \<open>Training\<close>

record train_args =
  train_output :: "string option"
  custom_bounds :: "bounds option"
  grad_tol :: real
  x_tol :: real
  line_steps :: int

text \<open>Lines 196--206 of \<^verbatim>\<open>train\<close>: the objective with its arguments bound.\<close>

definition objective_func ::
  "'e optimizer \<Rightarrow> 'e gp \<Rightarrow> train_args \<Rightarrow> vec \<Rightarrow> error + (real \<times> vec)" where
  "objective_func Opt s ta =
     (if multihyps s then
        (\<lambda>h. get_neg_like_grad_mask Opt h (training_data s) (training_labels_np s)
               (kernel_grad s) (cutoffs s) (train_output ta) (par s) (no_cpus s) (hyps_mask s))
      else
        (\<lambda>h. get_neg_like_grad Opt h (training_data s) (training_labels_np s)
               (kernel_grad s) (cutoffs s) (train_output ta) (par s) (no_cpus s)))"

definition bfgs_warning :: string where
  "bfgs_warning =
     ''Warning! Algorithm for L-BFGS-B failed. Changing to BFGS for remainder of run.''"

text \<open>
  The bounds and the option dictionaries of the three calls of \<^verbatim>\<open>minimize\<close>: the
  default bounds are \<^verbatim>\<open>(1e-6, np.inf)\<close> for each hyperparameter.
\<close>

definition default_bounds :: "'e gp \<Rightarrow> bounds" where
  "default_bounds s =
     (case bounds s of
        None \<Rightarrow> replicate (length (hyps s)) (1 / 10 ^ 6, Infinity)
      | Some b \<Rightarrow> b)"

definition lbfgsb_options :: "train_args \<Rightarrow> 'e gp \<Rightarrow> options" where
  "lbfgsb_options ta s =
     \<lparr> disp = False, gtol = Some (grad_tol ta), maxls = Some (line_steps ta),
       opt_maxiter = maxiter s, xtol = None \<rparr>"

definition bfgs_options :: "train_args \<Rightarrow> 'e gp \<Rightarrow> options" where
  "bfgs_options ta s =
     \<lparr> disp = False, gtol = Some (grad_tol ta), maxls = None,
       opt_maxiter = maxiter s, xtol = None \<rparr>"

definition nelder_mead_options :: "train_args \<Rightarrow> 'e gp \<Rightarrow> options" where
  "nelder_mead_options ta s =
     \<lparr> disp = False, gtol = None, maxls = None,
       opt_maxiter = maxiter s, xtol = Some (x_tol ta) \<rparr>"

text \<open>
  Lines 209--228 of \<^verbatim>\<open>train\<close>: the bounded attempt. Any exception of the
  optimizer is caught; the warning is printed and \<^verbatim>\<open>algo\<close> is overwritten. The
  result is \<^verbatim>\<open>res\<close>, the model and the lines printed.
\<close>

definition train_bounded ::
  "'e optimizer \<Rightarrow> train_args \<Rightarrow> 'e gp \<Rightarrow> opt_result option \<times> 'e gp \<times> string list" where
  "train_bounded Opt ta s =
     (if algo s = ''L-BFGS-B'' then
        (case minimize Opt (objective_func Opt s ta) (hyps s) ''L-BFGS-B'' True
                (Some (default_bounds s)) (lbfgsb_options ta s) of
           Inl e \<Rightarrow> (None, s\<lparr> algo := ''BFGS'' \<rparr>, [bfgs_warning])
         | Inr r \<Rightarrow> (Some r, s, []))
      else (None, s, []))"

text \<open>
  Lines 230--248 of \<^verbatim>\<open>train\<close>: the \<^verbatim>\<open>if\<close>/\<^verbatim>\<open>elif\<close> chain after the bounded attempt,
  on the model as the attempt left it and with the start vector \<open>x_0\<close> read before
  it. Nothing is caught here.
\<close>

definition train_select ::
  "'e optimizer \<Rightarrow> train_args \<Rightarrow> vec \<Rightarrow> opt_result option \<Rightarrow> 'e gp \<Rightarrow> error + opt_result option"
  where
  "train_select Opt ta x_0 res s =
     (if custom_bounds ta \<noteq> None then
        (case minimize Opt (objective_func Opt s ta) x_0 ''L-BFGS-B'' True (custom_bounds ta)
                (lbfgsb_options ta s) of
           Inl e \<Rightarrow> Inl e
         | Inr r \<Rightarrow> Inr (Some r))
      else if algo s = ''BFGS'' then
        (case minimize Opt (objective_func Opt s ta) x_0 ''BFGS'' True None
                (bfgs_options ta s) of
           Inl e \<Rightarrow> Inl e
         | Inr r \<Rightarrow> Inr (Some r))
      else if algo s = ''nelder-mead'' then
        (case minimize Opt (objective_func Opt s ta) x_0 ''nelder-mead'' False None
                (nelder_mead_options ta s) of
           Inl e \<Rightarrow> Inl e
         | Inr r \<Rightarrow> Inr (Some r))
      else Inr res)"

text \<open>
  Lines 249--254 of \<^verbatim>\<open>train\<close>: the hyperparameters are replaced, the cache is
  rebuilt and the likelihood pair is overwritten with the negated objective. Each
  assignment made before an exception stays.
\<close>

definition train_finish ::
  "'e gp_algebra \<Rightarrow> opt_result option \<Rightarrow> 'e gp \<Rightarrow> (error + unit) \<times> 'e gp" where
  "train_finish A res s =
     (case res of
        None \<Rightarrow> (Inl RuntimeError, s)
      | Some r \<Rightarrow>
          (case set_L_alpha A (s\<lparr> hyps := res_x r \<rparr>) of
             (Inl e, s') \<Rightarrow> (Inl e, s')
           | (Inr u, s') \<Rightarrow>
               (case res_jac r of
                  None \<Rightarrow> (Inl AttributeError, s'\<lparr> likelihood := Some (- res_fun r) \<rparr>)
                | Some g \<Rightarrow>
                    (Inr (),
                     s'\<lparr> likelihood := Some (- res_fun r),
                         likelihood_gradient := Some (map uminus g) \<rparr>))))"

text \<open>\<^verbatim>\<open>train\<close>: the result, the model afterwards and the lines printed.\<close>

definition train ::
  "'e gp_algebra \<Rightarrow> 'e optimizer \<Rightarrow> train_args \<Rightarrow> 'e gp \<Rightarrow> (error + unit) \<times> 'e gp \<times> string list"
  where
  "train A Opt ta s =
     (case train_bounded Opt ta s of
        (res, s1, printed) \<Rightarrow>
          (case train_select Opt ta (hyps s) res s1 of
             Inl e \<Rightarrow> (Inl e, s1, printed)
           | Inr res' \<Rightarrow>
               (case train_finish A res' s1 of
                  (r, s2) \<Rightarrow> (r, s2, printed))))"

text \<open>\<^verbatim>\<open>add_one_env\<close>, with the optional training pass.\<close>

definition add_one_env ::
  "'e gp_algebra \<Rightarrow> 'e optimizer \<Rightarrow> 'e \<Rightarrow> vec \<Rightarrow> bool \<Rightarrow> train_args \<Rightarrow> 'e gp
     \<Rightarrow> (error + unit) \<times> 'e gp \<times> string list" where
  "add_one_env A Opt env force do_train ta s =
     (let s1 = s\<lparr> training_data := training_data s @ [env],
                  training_labels := training_labels s @ [force] \<rparr>;
          s2 = s1\<lparr> training_labels_np := force_list_to_np (training_labels s1) \<rparr>
      in if do_train then train A Opt ta s2 else (Inr (), s2, []))"

section \<open>Prediction\<close>

text \<open>
  \<^verbatim>\<open>predict\<close>: the kernel vector, then the assertion, then mean and variance. No
  attribute of the model is assigned.
\<close>

definition predict :: "'e gp \<Rightarrow> 'e \<Rightarrow> int \<Rightarrow> error + (real \<times> real)" where
  "predict s x_t d =
     (let k_v = (if par s \<and> \<not> per_atom_par s then get_kernel_vector_par s x_t d
                 else get_kernel_vector s x_t d)
      in case alpha_current s of
           Inl e \<Rightarrow> Inl e
         | Inr ok \<Rightarrow>
             if \<not> ok then Inl AssertionError
             else
               (case matmul_vv k_v (alpha s) of
                  Inl e \<Rightarrow> Inl e
                | Inr pred_mean \<Rightarrow>
                    (let self_kern =
                           (if multihyps s then
                              kernel s x_t x_t d d (hyps s) (cutoffs s) None (hyps_mask s)
                            else kernel s x_t x_t d d (hyps s) (cutoffs s) None None)
                     in case matmul_vm k_v (ky_mat_inv s) of
                          Inl e \<Rightarrow> Inl e
                        | Inr w \<Rightarrow>
                            (case matmul_vv w (Nd k_v) of
                               Inl e \<Rightarrow> Inl e
                             | Inr q \<Rightarrow> Inr (pred_mean, self_kern - q)))))"

text \<open>\<^verbatim>\<open>predict_local_energy\<close>: the kernel vector and its product with \<^verbatim>\<open>alpha\<close>.\<close>

definition predict_local_energy :: "'e gp \<Rightarrow> 'e \<Rightarrow> error + real" where
  "predict_local_energy s x_t =
     (case en_kern_vec s x_t of
        Inl e \<Rightarrow> Inl e
      | Inr k_v \<Rightarrow> matmul_vv k_v (alpha s))"

text \<open>
  \<^verbatim>\<open>predict_local_energy_and_var\<close>: the variance goes through the triangular
  factor; \<^verbatim>\<open>energy_kernel\<close> defaults to \<^verbatim>\<open>None\<close>.
\<close>

definition predict_local_energy_and_var ::
  "'e gp_algebra \<Rightarrow> 'e gp \<Rightarrow> 'e \<Rightarrow> error + (real \<times> real)" where
  "predict_local_energy_and_var A s x_t =
     (case en_kern_vec s x_t of
        Inl e \<Rightarrow> Inl e
      | Inr k_v \<Rightarrow>
          (case matmul_vv k_v (alpha s) of
             Inl e \<Rightarrow> Inl e
           | Inr pred_mean \<Rightarrow>
               (case solve_triangular A (l_mat s) k_v of
                  Inl e \<Rightarrow> Inl e
                | Inr v_vec \<Rightarrow>
                    (case energy_kernel s of
                       None \<Rightarrow> Inl TypeError
                     | Some ek \<Rightarrow>
                         (let self_kern =
                                (if multihyps s then
                                   ek x_t x_t (hyps s) (cutoffs s) (hyps_mask s)
                                 else ek x_t x_t (hyps s) (cutoffs s) None)
                          in case matmul_vv v_vec (Nd v_vec) of
                               Inl e \<Rightarrow> Inl e
                             | Inr q \<Rightarrow> Inr (pred_mean, self_kern - q))))))"

section \<open>Dictionary representation\<close>

text \<open>
  \<^verbatim>\<open>as_dict\<close> copies every attribute but the two deleted callables, and replaces
  the environments by their own dictionaries (\<open>env_as_dict\<close>, external). The energy
  kernels stay in the dictionary as they are; a dictionary from elsewhere may hold a
  kernel name in their place. The five entries that \<^verbatim>\<open>from_dict\<close> reads with
  \<^verbatim>\<open>dictionary.get\<close> may be absent (\<open>None\<close>); the entries it reads with
  \<^verbatim>\<open>dictionary[...]\<close> are fields.
\<close>

datatype 'k kernel_ref = KName string | KCallable 'k

record ('e, 'd) gp_dict =
  d_energy_kernel :: "'e energy_kernel_fn kernel_ref option"
  d_energy_force_kernel :: "'e energy_force_kernel_fn kernel_ref option"
  d_kernel_name :: string
  d_hyps :: vec
  d_hyp_labels :: "string list option"
  d_cutoffs :: vec
  d_algo :: string
  d_bounds :: "bounds option"
  d_training_data :: "'d list"
  d_training_labels :: "vec list"
  d_training_labels_np :: vec
  d_maxiter :: int
  d_par :: bool
  d_per_atom_par :: bool
  d_no_cpus :: "int option"
  d_output :: "string option"
  d_ky_mat :: "mat cached option"
  d_l_mat :: "mat cached option"
  d_alpha :: "vec cached option"
  d_ky_mat_inv :: "mat cached option"
  d_l_mat_inv :: "mat cached option"
  d_likelihood :: "real option"
  d_likelihood_gradient :: "vec option"
  d_hyps_mask :: "mask_dict option"
  d_multihyps :: bool

definition as_dict :: "('e \<Rightarrow> 'd) \<Rightarrow> 'e gp \<Rightarrow> ('e, 'd) gp_dict" where
  "as_dict env_as_dict s =
     \<lparr> d_energy_kernel = map_option KCallable (energy_kernel s),
       d_energy_force_kernel = map_option KCallable (energy_force_kernel s),
       d_kernel_name = kernel_name s,
       d_hyps = hyps s,
       d_hyp_labels = hyp_labels s,
       d_cutoffs = cutoffs s,
       d_algo = algo s,
       d_bounds = bounds s,
       d_training_data = map env_as_dict (training_data s),
       d_training_labels = training_labels s,
       d_training_labels_np = training_labels_np s,
       d_maxiter = maxiter s,
       d_par = par s,
       d_per_atom_par = per_atom_par s,
       d_no_cpus = no_cpus s,
       d_output = gp_output s,
       d_ky_mat = Some (ky_mat s),
       d_l_mat = Some (l_mat s),
       d_alpha = Some (alpha s),
       d_ky_mat_inv = Some (ky_mat_inv s),
       d_l_mat_inv = Some (l_mat_inv s),
       d_likelihood = likelihood s,
       d_likelihood_gradient = likelihood_gradient s,
       d_hyps_mask = hyps_mask s,
       d_multihyps = multihyps s \<rparr>"

text \<open>
  The kernel registries \<^verbatim>\<open>str_to_kernel\<close>, \<^verbatim>\<open>str_to_mc_kernel\<close> and
  \<^verbatim>\<open>str_to_mc_sephyps_kernel\<close> (called with \<^verbatim>\<open>include_grad=True\<close> they return a
  named kernel and its gradient; \<^verbatim>\<open>str_to_kernel\<close> alone is also called on the two
  energy entries) and \<^verbatim>\<open>AtomicEnvironment.from_dict\<close> are external.
\<close>

record ('e, 'd) registry =
  str_to_kernel :: "string \<Rightarrow> error + ((string \<times> 'e force_kernel) \<times> 'e grad_kernel)"
  str_to_mc_kernel :: "string \<Rightarrow> error + ((string \<times> 'e force_kernel) \<times> 'e grad_kernel)"
  str_to_mc_sephyps_kernel :: "string \<Rightarrow> error + ((string \<times> 'e force_kernel) \<times> 'e grad_kernel)"
  str_to_kernel_energy :: "'e energy_kernel_fn kernel_ref \<Rightarrow> error + 'e energy_kernel_fn"
  str_to_kernel_energy_force ::
    "'e energy_force_kernel_fn kernel_ref \<Rightarrow> error + 'e energy_force_kernel_fn"
  env_from_dict :: "'d \<Rightarrow> error + 'e"

text \<open>The substring test \<^verbatim>\<open>p in s\<close> on strings.\<close>

fun starts_with :: "string \<Rightarrow> string \<Rightarrow> bool" where
  "starts_with [] cs = True"
| "starts_with (p # ps) [] = False"
| "starts_with (p # ps) (c # cs) = (p = c \<and> starts_with ps cs)"

fun py_in :: "string \<Rightarrow> string \<Rightarrow> bool" where
  "py_in p [] = (p = [])"
| "py_in p (c # cs) = (starts_with p (c # cs) \<or> py_in p cs)"

text \<open>A list comprehension over a call that may raise stops at the first exception.\<close>

fun map_err :: "('a \<Rightarrow> error + 'b) \<Rightarrow> 'a list \<Rightarrow> error + 'b list" where
  "map_err f [] = Inr []"
| "map_err f (x # xs) =
     (case f x of
        Inl e \<Rightarrow> Inl e
      | Inr y \<Rightarrow> (case map_err f xs of Inl e \<Rightarrow> Inl e | Inr ys \<Rightarrow> Inr (y # ys)))"

text \<open>\<^verbatim>\<open>np.array(dictionary.get(key, None))\<close>.\<close>

fun np_array_get :: "'a cached option \<Rightarrow> 'a cached" where
  "np_array_get None = NdNone"
| "np_array_get (Some PyNone) = NdNone"
| "np_array_get (Some NdNone) = NdNone"
| "np_array_get (Some (Nd a)) = Nd a"

text \<open>Lines 560--581 of \<^verbatim>\<open>from_dict\<close>: the kernels are resolved by name.\<close>

definition resolve_force_kernel ::
  "('e, 'd) registry \<Rightarrow> ('e, 'd) gp_dict \<Rightarrow> error + ((string \<times> 'e force_kernel) \<times> 'e grad_kernel)"
  where
  "resolve_force_kernel R d =
     (if py_in ''mc'' (d_kernel_name d) then
        (if \<not> d_multihyps d then str_to_mc_kernel R (d_kernel_name d)
         else str_to_mc_sephyps_kernel R (d_kernel_name d))
      else str_to_kernel R (d_kernel_name d))"

definition resolve_optional :: "('k \<Rightarrow> error + 'f) \<Rightarrow> 'k option \<Rightarrow> error + 'f option" where
  "resolve_optional f entry =
     (case entry of
        None \<Rightarrow> Inr None
      | Some k \<Rightarrow> (case f k of Inl e \<Rightarrow> Inl e | Inr g \<Rightarrow> Inr (Some g)))"

text \<open>
  \<^verbatim>\<open>from_dict\<close>: the constructor runs on the stored settings (with its defaults for
  \<^verbatim>\<open>per_atom_par\<close> and \<^verbatim>\<open>output\<close>), then the cached arrays, the training set and the
  likelihood pair are assigned and the flat label vector is recomputed.
\<close>

definition from_dict ::
  "wide_test \<Rightarrow> ('e, 'd) registry \<Rightarrow> ('e, 'd) gp_dict \<Rightarrow> error + 'e gp" where
  "from_dict W R d =
     (case resolve_force_kernel R d of
        Inl e \<Rightarrow> Inl e
      | Inr (force_kernel, grad) \<Rightarrow>
          (case resolve_optional (str_to_kernel_energy R) (d_energy_kernel d) of
             Inl e \<Rightarrow> Inl e
           | Inr ek \<Rightarrow>
               (case resolve_optional (str_to_kernel_energy_force R) (d_energy_force_kernel d) of
                  Inl e \<Rightarrow> Inl e
                | Inr efk \<Rightarrow>
                    (case init W \<lparr> arg_kernel = force_kernel, arg_kernel_grad = grad,
                                 arg_hyps = d_hyps d, arg_cutoffs = d_cutoffs d,
                                 arg_hyp_labels = d_hyp_labels d,
                                 arg_energy_force_kernel = efk, arg_energy_kernel = ek,
                                 arg_opt_algorithm = d_algo d, arg_maxiter = d_maxiter d,
                                 arg_par = d_par d, arg_no_cpus = d_no_cpus d,
                                 arg_per_atom_par = True, arg_output = None,
                                 arg_multihyps = d_multihyps d,
                                 arg_hyps_mask =
                                   (case d_hyps_mask d of None \<Rightarrow> ArgNone | Some m \<Rightarrow> ArgDict m) \<rparr> of
                       Inl e \<Rightarrow> Inl e
                     | Inr new_gp \<Rightarrow>
                         (case map_err (env_from_dict R) (d_training_data d) of
                            Inl e \<Rightarrow> Inl e
                          | Inr envs \<Rightarrow>
                              Inr (new_gp
                                    \<lparr> l_mat := np_array_get (d_l_mat d),
                                      l_mat_inv := np_array_get (d_l_mat_inv d),
                                      alpha := np_array_get (d_alpha d),
                                      ky_mat := np_array_get (d_ky_mat d),
                                      ky_mat_inv := np_array_get (d_ky_mat_inv d),
                                      training_data := envs,
                                      training_labels := d_training_labels d,
                                      likelihood := d_likelihood d,
                                      likelihood_gradient := d_likelihood_gradient d,
                                      training_labels_np :=
                                        force_list_to_np (d_training_labels d) \<rparr>))))))"

section \<open>The covariance builders, from their description\<close>




section \<open>The mask relations, as stated and as checked\<close>

text \<open>A group count whose key is absent counts as zero, as \<^verbatim>\<open>n2b = 0\<close> does.\<close>

definition count_of :: "int option \<Rightarrow> int" where
  "count_of c = (case c of None \<Rightarrow> 0 | Some n \<Rightarrow> n)"

text \<open>
  The relations in the words of the specification: when groups of an order are
  declared, the mask of that order has length \<open>nspec ^ p\<close> and every entry is
  below the count; at least one of the two counts is positive; the length relation
  on the hyperparameters, directly or through \<^verbatim>\<open>map\<close>/\<^verbatim>\<open>original\<close>.
\<close>

definition stated_group_ok :: "int option \<Rightarrow> int list option \<Rightarrow> int \<Rightarrow> nat \<Rightarrow> bool" where
  "stated_group_ok cnt msk ns p =
     (count_of cnt > 0 \<longrightarrow>
        (case msk of
           None \<Rightarrow> False
         | Some m \<Rightarrow> int (length m) = ns ^ p \<and> (\<forall>x \<in> set m. x < count_of cnt)))"

definition hyps_length_ok :: "mask_dict \<Rightarrow> nat \<Rightarrow> bool" where
  "hyps_length_ok m nh =
     (case mask_map m of
        None \<Rightarrow> 2 * (count_of (nbond m) + count_of (ntriplet m)) + 1 = int nh
      | Some mp \<Rightarrow>
          (case original m of
             None \<Rightarrow> False
           | Some orig \<Rightarrow>
               2 * (count_of (nbond m) + count_of (ntriplet m)) + 1 = int (length orig)
               \<and> length mp = nh))"

definition stated_mask_relations :: "mask_dict \<Rightarrow> nat \<Rightarrow> bool" where
  "stated_mask_relations m nh =
     (nspec m \<noteq> None \<and> spec_mask m \<noteq> None
      \<and> stated_group_ok (nbond m) (bond_mask m) (count_of (nspec m)) 2
      \<and> stated_group_ok (ntriplet m) (triplet_mask m) (count_of (nspec m)) 3
      \<and> (count_of (nbond m) > 0 \<or> count_of (ntriplet m) > 0)
      \<and> hyps_length_ok m nh)"

text \<open>
  The relations the constructor checks: a declared mask is moreover not empty
  (its maximum is taken), and it is the sum of the two counts that is positive.
\<close>

definition group_ok :: "int option \<Rightarrow> int list option \<Rightarrow> int \<Rightarrow> nat \<Rightarrow> bool" where
  "group_ok cnt msk ns p =
     (count_of cnt > 0 \<longrightarrow>
        (case msk of
           None \<Rightarrow> False
         | Some m \<Rightarrow>
             m \<noteq> [] \<and> int (length m) = ns ^ p \<and> (\<forall>x \<in> set m. x < count_of cnt)))"

definition mask_relations :: "mask_dict \<Rightarrow> nat \<Rightarrow> bool" where
  "mask_relations m nh =
     (nspec m \<noteq> None \<and> spec_mask m \<noteq> None
      \<and> group_ok (nbond m) (bond_mask m) (count_of (nspec m)) 2
      \<and> group_ok (ntriplet m) (triplet_mask m) (count_of (nspec m)) 3
      \<and> count_of (nbond m) + count_of (ntriplet m) > 0
      \<and> hyps_length_ok m nh)"

text \<open>
  A mask whose counts and mask entries are signed 64-bit integers, the values on
  which numpy's maximum and comparison are exact.
\<close>

definition mask_int64 :: "mask_dict \<Rightarrow> bool" where
  "mask_int64 m =
     (in_int64 (count_of (nbond m)) \<and> in_int64 (count_of (ntriplet m))
      \<and> (case bond_mask m of None \<Rightarrow> True | Some bm \<Rightarrow> list_all in_int64 bm)
      \<and> (case triplet_mask m of None \<Rightarrow> True | Some tm \<Rightarrow> list_all in_int64 tm))"

section \<open>The kernel registry, from its description\<close>

text \<open>
  Modelled from the spec: the registry \<^verbatim>\<open>str_to_kernel\<close> lives in \<^verbatim>\<open>flare.kernels\<close>,
  which is not among the sources. Kernels are identified by name string, not
  serialized directly: the registry looks a name up in its table and raises when
  the name is not in it; a value that is not a name string, such as a function
  object, is not in it either.
\<close>

definition spec_str_to_kernel :: "(string \<Rightarrow> 'k option) \<Rightarrow> 'k kernel_ref \<Rightarrow> error + 'k" where
  "spec_str_to_kernel table ref =
     (case ref of
        KName n \<Rightarrow>
          (case table n of
             None \<Rightarrow> Inl (Raised ''kernel not found'')
           | Some k \<Rightarrow> Inr k)
      | KCallable f \<Rightarrow> Inl (Raised ''kernel not found''))"

section \<open>Concrete models\<close>

text \<open>
  What numpy does outside the 64-bit range is not consulted by the concrete
  models below; a stand-in that raises takes its place.
\<close>

definition demo_wide :: wide_test where
  "demo_wide xs n = Inl (Raised ''outside the 64-bit range'')"

text \<open>
  Small concrete arguments on environments numbered by naturals: a symmetric
  kernel, its gradient function with an empty gradient, and collaborators that
  succeed with fixed values unless told otherwise.
\<close>

definition demo_kernel :: "nat force_kernel" where
  "demo_kernel x y d1 d2 hs cs cf m = real (x * y) + real_of_int (d1 * d2)"

definition demo_kernel_grad :: "nat grad_kernel" where
  "demo_kernel_grad x y d1 d2 hs cs cf m = (demo_kernel x y d1 d2 hs cs cf m, [])"

definition demo_args :: "vec \<Rightarrow> string \<Rightarrow> bool \<Rightarrow> mask_arg \<Rightarrow> nat init_args" where
  "demo_args hs alg mh msk =
     \<lparr> arg_kernel = (''two_body'', demo_kernel),
       arg_kernel_grad = demo_kernel_grad,
       arg_hyps = hs,
       arg_cutoffs = [],
       arg_hyp_labels = None,
       arg_energy_force_kernel = None,
       arg_energy_kernel = None,
       arg_opt_algorithm = alg,
       arg_maxiter = 10,
       arg_par = False,
       arg_no_cpus = None,
       arg_per_atom_par = True,
       arg_output = None,
       arg_multihyps = mh,
       arg_hyps_mask = msk \<rparr>"

definition empty_mask :: mask_dict where
  "empty_mask =
     \<lparr> nspec = None, spec_mask = None, nbond = None, bond_mask = None, ntriplet = None,
       triplet_mask = None, mask_map = None, original = None, mask_bounds = None \<rparr>"

text \<open>The mask of the scenario: two species, one pairwise group, no triplet group.\<close>

definition scenario_mask :: "int list \<Rightarrow> mask_dict" where
  "scenario_mask bm =
     empty_mask\<lparr> nspec := Some 2, spec_mask := Some [0, 1], nbond := Some 1,
                 bond_mask := Some bm, ntriplet := Some 0 \<rparr>"

text \<open>The model right after construction without a mask.\<close>

definition demo_gp :: "string \<Rightarrow> nat gp" where
  "demo_gp alg = init_fields (demo_args [1, 1] alg False ArgNone)"

text \<open>A model that has been factorized once and carries a likelihood pair.\<close>

definition demo_factorized :: "nat gp" where
  "demo_factorized =
     (demo_gp ''BFGS'')\<lparr> ky_mat := Nd [[1]], l_mat := Nd [[1]], alpha := Nd [2],
                          ky_mat_inv := Nd [[1]], l_mat_inv := Nd [[1]],
                          likelihood := Some 5, likelihood_gradient := Some [7] \<rparr>"

definition demo_algebra :: "(mat \<Rightarrow> error + mat) \<Rightarrow> nat gp_algebra" where
  "demo_algebra chol =
     \<lparr> get_ky_and_hyp = (\<lambda>hs data labels kg cs. Inr ([], [])),
       get_ky_and_hyp_par = (\<lambda>hs data labels kg cs. Inr ([], [])),
       get_ky_and_multihyp = (\<lambda>hs msk data labels kg cs. Inr ([], [])),
       get_ky_and_multihyp_par = (\<lambda>hs msk data labels kg cs. Inr ([], [])),
       get_like_grad_from_mats = (\<lambda>ky hyp_mat labels. Inr (0, [])),
       get_ky_mat_update = (\<lambda>ky data kv hs p n. Inr []),
       cholesky = chol,
       linalg_inv = (\<lambda>l. Inr l),
       solve_triangular = (\<lambda>l v. Inr v) \<rparr>"

text \<open>An optimizer whose \<^verbatim>\<open>minimize\<close> is given per method.\<close>

definition demo_optimizer :: "(string \<Rightarrow> error + opt_result) \<Rightarrow> nat optimizer" where
  "demo_optimizer run =
     \<lparr> get_neg_like_grad = (\<lambda>h data labels kg cs out p n. Inr (0, [])),
       get_neg_like_grad_mask = (\<lambda>h data labels kg cs out p n m. Inr (0, [])),
       minimize = (\<lambda>obj x_0 method jac bnds opts. run method) \<rparr>"

text \<open>
  An optimizer run as scipy reports it: the result of the simplex method carries
  no \<^verbatim>\<open>jac\<close>, the results of the two quasi-Newton methods do.
\<close>

definition demo_simplex_run :: "string \<Rightarrow> error + opt_result" where
  "demo_simplex_run method =
     Inr \<lparr> res_x = [2, 3], res_fun = 4,
           res_jac = (if method = ''nelder-mead'' then None else Some [5, 6]) \<rparr>"

definition demo_train_args :: train_args where
  "demo_train_args =
     \<lparr> train_output = None, custom_bounds = None, grad_tol = 1 / 10 ^ 4,
       x_tol = 1 / 10 ^ 5, line_steps = 20 \<rparr>"

text \<open>
  An optimizer run whose bounded method raises and whose other methods return a
  fixed result.
\<close>

definition demo_result :: opt_result where
  "demo_result = \<lparr> res_x = [2, 3], res_fun = 4, res_jac = Some [5, 6] \<rparr>"

definition demo_fallback_run :: "string \<Rightarrow> error + opt_result" where
  "demo_fallback_run method =
     (if method = ''L-BFGS-B'' then Inl (Raised ''nan'') else Inr demo_result)"

text \<open>
  A model whose training set has grown to one entry since the factorization: its
  \<^verbatim>\<open>alpha\<close> has one entry where three are needed.
\<close>

definition demo_stale :: "nat gp" where
  "demo_stale =
     demo_factorized\<lparr> training_data := [1], training_labels := [[1, 2, 3]],
                       training_labels_np := [1, 2, 3],
                       energy_force_kernel := Some (\<lambda>x y d hs cs m. 1),
                       energy_kernel := Some (\<lambda>x y hs cs m. 1) \<rparr>"

text \<open>
  A structure of two atoms, an environment constructor that numbers the
  environment by its atom, and a registry that resolves every force kernel name
  and knows one energy kernel and one energy/force kernel by name.
\<close>

definition demo_energy_table :: "string \<Rightarrow> nat energy_kernel_fn option" where
  "demo_energy_table n = (if n = ''two_body_en'' then Some (\<lambda>x y hs cs m. 1) else None)"

definition demo_energy_force_table :: "string \<Rightarrow> nat energy_force_kernel_fn option" where
  "demo_energy_force_table n =
     (if n = ''two_body_force_en'' then Some (\<lambda>x y d hs cs m. 1) else None)"

definition demo_struc :: struc where
  "demo_struc = \<lparr> positions = [[0, 0, 0], [1, 0, 0]] \<rparr>"

definition demo_mk_env :: "struc \<Rightarrow> int \<Rightarrow> vec \<Rightarrow> error + nat" where
  "demo_mk_env st atom cs = Inr (nat atom)"

definition demo_registry :: "(nat, nat) registry" where
  "demo_registry =
     \<lparr> str_to_kernel = (\<lambda>name. Inr ((name, demo_kernel), demo_kernel_grad)),
       str_to_mc_kernel = (\<lambda>name. Inr ((name, demo_kernel), demo_kernel_grad)),
       str_to_mc_sephyps_kernel = (\<lambda>name. Inr ((name, demo_kernel), demo_kernel_grad)),
       str_to_kernel_energy = spec_str_to_kernel demo_energy_table,
       str_to_kernel_energy_force = spec_str_to_kernel demo_energy_force_table,
       env_from_dict = (\<lambda>d. Inr d) \<rparr>"






text \<open>
  Two masks at the edge: a negative triplet count beside a positive pairwise count,
  and a declared pairwise group over zero species.
\<close>

definition neg_mask :: mask_dict where
  "neg_mask =
     empty_mask\<lparr> nspec := Some 1, spec_mask := Some [0], nbond := Some 2,
                 bond_mask := Some [0], ntriplet := Some (- 2) \<rparr>"

definition zero_mask :: mask_dict where
  "zero_mask =
     empty_mask\<lparr> nspec := Some 0, spec_mask := Some [], nbond := Some 1,
                 bond_mask := Some [], ntriplet := Some 0 \<rparr>"

section \<open>Properties of the constructor\<close>

lemma fold_max_less: "(fold max as x < (n::int)) = (\<forall>y \<in> set (x # as). y < n)"
  by (induction as arbitrary: x) auto

lemma np_max_less_in_range:
  "list_all in_int64 xs \<Longrightarrow> in_int64 n \<Longrightarrow>
     np_max_less W xs n = (if xs = [] then Inl ValueError else Inr (\<forall>y \<in> set xs. y < n))"
  by (cases xs) (simp_all add: np_max_less_def fold_max_less list_all_iff)

lemma group_count_eq:
  assumes "in_int64 (count_of cnt)"
    and "case msk of None \<Rightarrow> True | Some m \<Rightarrow> list_all in_int64 m"
  shows "group_count W cnt msk ns p =
     (if group_ok cnt msk ns p then Inr (count_of cnt)
      else Inl (if msk = None then KeyError else if msk = Some [] then ValueError
                else AssertionError))"
  using assms
  by (auto simp: group_count_def group_ok_def count_of_def np_max_less_in_range
           split: option.splits)

lemma check_hyps_mask_iff:
  assumes "mask_int64 m"
  shows "(check_hyps_mask W m nh = Inr ()) = mask_relations m nh"
proof -
  from assms have
    b: "group_count W (nbond m) (bond_mask m) (the (nspec m)) 2 =
         (if group_ok (nbond m) (bond_mask m) (the (nspec m)) 2 then Inr (count_of (nbond m))
          else Inl (if bond_mask m = None then KeyError
                    else if bond_mask m = Some [] then ValueError else AssertionError))"
    and t: "group_count W (ntriplet m) (triplet_mask m) (the (nspec m)) 3 =
         (if group_ok (ntriplet m) (triplet_mask m) (the (nspec m)) 3
          then Inr (count_of (ntriplet m))
          else Inl (if triplet_mask m = None then KeyError
                    else if triplet_mask m = Some [] then ValueError else AssertionError))"
    by (simp_all add: mask_int64_def group_count_eq)
  show ?thesis
    unfolding check_hyps_mask_def b t
    by (auto simp: mask_relations_def hyps_length_ok_def py_assert_def count_of_def
             split: option.splits)
qed

lemma demo_masks_int64:
  "mask_int64 neg_mask" "mask_int64 zero_mask" "mask_int64 empty_mask"
  "list_all in_int64 bm \<Longrightarrow> mask_int64 (scenario_mask bm)"
  by (simp_all add: mask_int64_def in_int64_def count_of_def neg_mask_def zero_mask_def
        scenario_mask_def empty_mask_def)

text \<open>
  Claim C5, as stated, fails: construction with \<^verbatim>\<open>multihyps\<close> and a mask dict does
  not succeed on every mask that satisfies the stated relations. With
  \<^verbatim>\<open>nbond = 2\<close> and \<^verbatim>\<open>ntriplet = -2\<close> one count is positive and every stated
  relation holds, but the constructor asserts that the sum of the counts is
  positive; with \<^verbatim>\<open>nspec = 0\<close>, \<^verbatim>\<open>nbond = 1\<close> and an empty \<^verbatim>\<open>bond_mask\<close> every stated
  relation holds, but the maximum of an empty mask raises.
\<close>

theorem stated_mask_relations_counterexample:
  "stated_mask_relations neg_mask 1
   \<and> init demo_wide (demo_args [1] ''L-BFGS-B'' True (ArgDict neg_mask)) = Inl AssertionError
   \<and> stated_mask_relations zero_mask 3
   \<and> init demo_wide (demo_args [1, 1, 1] ''L-BFGS-B'' True (ArgDict zero_mask)) = Inl ValueError"
  by (simp add: stated_mask_relations_def stated_group_ok_def hyps_length_ok_def neg_mask_def
        zero_mask_def empty_mask_def count_of_def init_def demo_args_def check_hyps_mask_def
        group_count_def py_assert_def np_max_less_def in_int64_def)

text \<open>
  Claim C5, amended: with \<^verbatim>\<open>multihyps\<close> active and a mask dict supplied whose
  counts and mask entries are signed 64-bit integers (the values numpy compares
  exactly), construction succeeds if and only if \<^verbatim>\<open>nspec\<close> and \<^verbatim>\<open>spec_mask\<close> are
  present; when \<^verbatim>\<open>nbond > 0\<close>, \<^verbatim>\<open>bond_mask\<close> is present, not empty, of length
  \<open>nspec ^ 2\<close> with every entry below \<^verbatim>\<open>nbond\<close>; when \<^verbatim>\<open>ntriplet > 0\<close>, the same for
  \<^verbatim>\<open>triplet_mask\<close> with \<open>nspec ^ 3\<close>; \<^verbatim>\<open>nbond + ntriplet > 0\<close> (an absent count
  being zero); and \<open>2 * (nbond + ntriplet) + 1\<close> is the number of hyperparameters,
  or, when \<^verbatim>\<open>map\<close> is present, the length of \<^verbatim>\<open>original\<close> while \<^verbatim>\<open>map\<close> has the
  length of the hyperparameters. Whatever numpy does outside the 64-bit range
  plays no part.
\<close>

theorem init_succeeds_iff_mask_relations:
  "arg_multihyps a \<Longrightarrow> arg_hyps_mask a = ArgDict m \<Longrightarrow> mask_int64 m \<Longrightarrow>
     (\<exists>s. init W a = Inr s) = mask_relations m (length (arg_hyps a))"
  using check_hyps_mask_iff [where m = m and W = W and nh = "length (arg_hyps a)"]
  by (auto simp: init_def split: sum.splits)

text \<open>
  The scenario of claim C5: two species, one pairwise group and three
  hyperparameters. The mask \<open>[0, 0, 0, 0]\<close> is accepted; the mask \<open>[0, 0, 0, 1]\<close>
  is rejected, by the assertion on the largest entry.
\<close>

theorem init_succeeds_iff_mask_relations_witness:
  "(\<exists>s. init demo_wide
           (demo_args [1, 1, 1] ''L-BFGS-B'' True (ArgDict (scenario_mask [0, 0, 0, 0]))) = Inr s)
   \<and> \<not> (\<exists>s. init demo_wide
           (demo_args [1, 1, 1] ''L-BFGS-B'' True (ArgDict (scenario_mask [0, 0, 0, 1]))) = Inr s)
   \<and> init demo_wide (demo_args [1, 1, 1] ''L-BFGS-B'' True (ArgDict (scenario_mask [0, 0, 0, 1])))
       = Inl AssertionError"
proof -
  have a: "arg_multihyps (demo_args [1, 1, 1] ''L-BFGS-B'' True (ArgDict (scenario_mask bm)))" for bm
    by (simp add: demo_args_def)
  have b: "arg_hyps_mask (demo_args [1, 1, 1] ''L-BFGS-B'' True (ArgDict (scenario_mask bm)))
             = ArgDict (scenario_mask bm)" for bm
    by (simp add: demo_args_def)
  have c: "length (arg_hyps (demo_args [1, 1, 1] ''L-BFGS-B'' True (ArgDict (scenario_mask bm)))) = 3"
    for bm
    by (simp add: demo_args_def)
  have r0: "mask_int64 (scenario_mask [0, 0, 0, 0])"
    by (rule demo_masks_int64) (simp add: in_int64_def)
  have r1: "mask_int64 (scenario_mask [0, 0, 0, 1])"
    by (rule demo_masks_int64) (simp add: in_int64_def)
  have ok: "mask_relations (scenario_mask [0, 0, 0, 0]) 3"
    by (simp add: mask_relations_def group_ok_def hyps_length_ok_def scenario_mask_def
                  empty_mask_def count_of_def)
  have bad: "\<not> mask_relations (scenario_mask [0, 0, 0, 1]) 3"
    by (simp add: mask_relations_def group_ok_def hyps_length_ok_def scenario_mask_def
                  empty_mask_def count_of_def)
  have err: "init demo_wide
               (demo_args [1, 1, 1] ''L-BFGS-B'' True (ArgDict (scenario_mask [0, 0, 0, 1])))
               = Inl AssertionError"
    by (simp add: init_def demo_args_def check_hyps_mask_def group_count_def scenario_mask_def
                  empty_mask_def np_max_less_def in_int64_def)
  show ?thesis
    using init_succeeds_iff_mask_relations [OF a b r0, of demo_wide]
          init_succeeds_iff_mask_relations [OF a b r1, of demo_wide] ok bad err
    by (simp only: c simp_thms)
qed

text \<open>
  Claim C10: when \<^verbatim>\<open>multihyps\<close> is false or the supplied mask is not a dict, the
  mask is dropped without any check: construction succeeds, whatever the mask,
  and the model has \<^verbatim>\<open>hyps_mask = None\<close> and \<^verbatim>\<open>multihyps = False\<close>.
\<close>

theorem init_discards_mask:
  "\<not> arg_multihyps a \<or> (\<forall>m. arg_hyps_mask a \<noteq> ArgDict m) \<Longrightarrow>
     init W a = Inr ((init_fields a)\<lparr> hyps_mask := None, multihyps := False \<rparr>)"
  by (auto simp: init_def split: mask_arg.splits)

text \<open>
  A mask dict without any key is dropped when \<^verbatim>\<open>multihyps\<close> is false, and so is a
  mask that is not a dict when \<^verbatim>\<open>multihyps\<close> is true; the same empty dict is
  rejected when \<^verbatim>\<open>multihyps\<close> is true.
\<close>

theorem init_discards_mask_witness:
  "init demo_wide (demo_args [1] ''BFGS'' False (ArgDict empty_mask))
     = Inr ((init_fields (demo_args [1] ''BFGS'' False (ArgDict empty_mask)))
              \<lparr> hyps_mask := None, multihyps := False \<rparr>)
   \<and> init demo_wide (demo_args [1] ''BFGS'' True ArgOther)
     = Inr ((init_fields (demo_args [1] ''BFGS'' True ArgOther))
              \<lparr> hyps_mask := None, multihyps := False \<rparr>)
   \<and> init demo_wide (demo_args [1] ''BFGS'' True (ArgDict empty_mask)) = Inl AssertionError"
proof -
  have a: "\<not> arg_multihyps (demo_args [1] ''BFGS'' False (ArgDict empty_mask))
           \<or> (\<forall>m. arg_hyps_mask (demo_args [1] ''BFGS'' False (ArgDict empty_mask)) \<noteq> ArgDict m)"
    by (simp add: demo_args_def)
  have b: "\<not> arg_multihyps (demo_args [1] ''BFGS'' True ArgOther)
           \<or> (\<forall>m. arg_hyps_mask (demo_args [1] ''BFGS'' True ArgOther) \<noteq> ArgDict m)"
    by (simp add: demo_args_def)
  have c: "init demo_wide (demo_args [1] ''BFGS'' True (ArgDict empty_mask)) = Inl AssertionError"
    by (simp add: init_def demo_args_def check_hyps_mask_def empty_mask_def)
  show ?thesis
    using init_discards_mask [OF a, of demo_wide] init_discards_mask [OF b, of demo_wide] c
    by simp
qed

section \<open>Properties of the factorization cache\<close>

lemma set_L_alpha_cases:
  "set_L_alpha A s = (r, s') \<Longrightarrow>
     (\<exists>e. r = Inl e \<and> s' = s) \<or>
     (\<exists>hyp_mat ky like like_grad l li al.
        r = Inr () \<and> build_ky A s = Inr (hyp_mat, ky)
        \<and> get_like_grad_from_mats A ky hyp_mat (training_labels_np s) = Inr (like, like_grad)
        \<and> cholesky A ky = Inr l \<and> linalg_inv A l = Inr li
        \<and> matmul_mv (gram li) (training_labels_np s) = Inr al
        \<and> s' = s\<lparr> ky_mat := Nd ky, l_mat := Nd l, alpha := Nd al,
                   ky_mat_inv := Nd (gram li), l_mat_inv := Nd li,
                   likelihood := Some like, likelihood_gradient := Some like_grad \<rparr>)"
  unfolding set_L_alpha_def
  by (auto split: sum.splits prod.splits)

lemma set_L_alpha_cholesky_fails:
  "build_ky A s = Inr (hyp_mat, ky) \<Longrightarrow>
   get_like_grad_from_mats A ky hyp_mat (training_labels_np s) = Inr lg \<Longrightarrow>
   cholesky A ky = Inl e \<Longrightarrow> set_L_alpha A s = (Inl e, s)"
  unfolding set_L_alpha_def by (cases lg) simp

lemma demo_build_ky: "build_ky (demo_algebra chol) (demo_gp alg) = Inr ([], [])"
  by (simp add: build_ky_def demo_algebra_def demo_gp_def init_fields_def demo_args_def)

lemma demo_labels: "training_labels_np (demo_gp alg) = []"
  by (simp add: demo_gp_def init_fields_def)

text \<open>
  Claim C3: \<^verbatim>\<open>set_L_alpha\<close> is all or nothing. Whenever it raises, no attribute of
  the model has changed; a failing Cholesky factorization of the covariance matrix
  is such a case and its error is the one that propagates; and when it returns,
  \<^verbatim>\<open>ky_mat\<close>, \<^verbatim>\<open>l_mat\<close>, \<^verbatim>\<open>alpha\<close>, \<^verbatim>\<open>ky_mat_inv\<close>, \<^verbatim>\<open>l_mat_inv\<close>, \<^verbatim>\<open>likelihood\<close> and
  \<^verbatim>\<open>likelihood_gradient\<close> have all been replaced, by the values computed from the
  one covariance matrix.
\<close>

theorem set_L_alpha_all_or_nothing:
  "(\<forall>e s'. set_L_alpha A s = (Inl e, s') \<longrightarrow> s' = s)
   \<and> (\<forall>hyp_mat ky lg e.
         build_ky A s = Inr (hyp_mat, ky)
         \<and> get_like_grad_from_mats A ky hyp_mat (training_labels_np s) = Inr lg
         \<and> cholesky A ky = Inl e
         \<longrightarrow> set_L_alpha A s = (Inl e, s))
   \<and> (\<forall>s'. set_L_alpha A s = (Inr (), s') \<longrightarrow>
         (\<exists>hyp_mat ky like like_grad l li al.
            build_ky A s = Inr (hyp_mat, ky)
            \<and> get_like_grad_from_mats A ky hyp_mat (training_labels_np s) = Inr (like, like_grad)
            \<and> cholesky A ky = Inr l \<and> linalg_inv A l = Inr li
            \<and> matmul_mv (gram li) (training_labels_np s) = Inr al
            \<and> s' = s\<lparr> ky_mat := Nd ky, l_mat := Nd l, alpha := Nd al,
                       ky_mat_inv := Nd (gram li), l_mat_inv := Nd li,
                       likelihood := Some like, likelihood_gradient := Some like_grad \<rparr>))"
proof (intro conjI allI impI)
  fix e s' assume "set_L_alpha A s = (Inl e, s')"
  from set_L_alpha_cases [OF this] show "s' = s" by auto
next
  fix hyp_mat ky lg e
  assume "build_ky A s = Inr (hyp_mat, ky)
         \<and> get_like_grad_from_mats A ky hyp_mat (training_labels_np s) = Inr lg
         \<and> cholesky A ky = Inl e"
  then show "set_L_alpha A s = (Inl e, s)" by (auto intro: set_L_alpha_cholesky_fails)
next
  fix s' assume "set_L_alpha A s = (Inr (), s')"
  from set_L_alpha_cases [OF this]
  show "\<exists>hyp_mat ky like like_grad l li al.
            build_ky A s = Inr (hyp_mat, ky)
            \<and> get_like_grad_from_mats A ky hyp_mat (training_labels_np s) = Inr (like, like_grad)
            \<and> cholesky A ky = Inr l \<and> linalg_inv A l = Inr li
            \<and> matmul_mv (gram li) (training_labels_np s) = Inr al
            \<and> s' = s\<lparr> ky_mat := Nd ky, l_mat := Nd l, alpha := Nd al,
                       ky_mat_inv := Nd (gram li), l_mat_inv := Nd li,
                       likelihood := Some like, likelihood_gradient := Some like_grad \<rparr>"
    by auto
qed

text \<open>
  On a fresh model, a factorization that fails leaves the model as it was and
  its error propagates; one that succeeds fills the seven attributes.
\<close>

theorem set_L_alpha_all_or_nothing_witness:
  "set_L_alpha (demo_algebra (\<lambda>m. Inl (Raised ''not positive definite''))) (demo_gp ''BFGS'')
     = (Inl (Raised ''not positive definite''), demo_gp ''BFGS'')
   \<and> snd (set_L_alpha (demo_algebra (\<lambda>m. Inr m)) (demo_gp ''BFGS''))
     = (demo_gp ''BFGS'')\<lparr> ky_mat := Nd [], l_mat := Nd [], alpha := Nd [],
                            ky_mat_inv := Nd [], l_mat_inv := Nd [],
                            likelihood := Some 0, likelihood_gradient := Some [] \<rparr>"
proof -
  let ?bad = "demo_algebra (\<lambda>m. Inl (Raised ''not positive definite''))"
  let ?good = "demo_algebra (\<lambda>m. Inr m)"
  let ?s = "demo_gp ''BFGS''"
  have h: "build_ky ?bad ?s = Inr ([], [])
           \<and> get_like_grad_from_mats ?bad [] [] (training_labels_np ?s) = Inr (0, [])
           \<and> cholesky ?bad [] = Inl (Raised ''not positive definite'')"
    by (simp add: demo_build_ky) (simp add: demo_algebra_def)
  have first: "set_L_alpha ?bad ?s = (Inl (Raised ''not positive definite''), ?s)"
    using set_L_alpha_all_or_nothing [of ?bad ?s] h by blast
  have run: "fst (set_L_alpha ?good ?s) = Inr ()"
    by (simp add: set_L_alpha_def demo_build_ky demo_labels)
       (simp add: demo_algebra_def gram_def ncols_def matmul_mv_def demo_labels)
  then have "set_L_alpha ?good ?s = (Inr (), snd (set_L_alpha ?good ?s))"
    by (metis prod.collapse)
  with set_L_alpha_all_or_nothing [of ?good ?s]
  obtain hyp_mat ky like like_grad l li al where
    k: "build_ky ?good ?s = Inr (hyp_mat, ky)"
       "get_like_grad_from_mats ?good ky hyp_mat (training_labels_np ?s) = Inr (like, like_grad)"
       "cholesky ?good ky = Inr l" "linalg_inv ?good l = Inr li"
       "matmul_mv (gram li) (training_labels_np ?s) = Inr al"
       "snd (set_L_alpha ?good ?s) = ?s\<lparr> ky_mat := Nd ky, l_mat := Nd l, alpha := Nd al,
                       ky_mat_inv := Nd (gram li), l_mat_inv := Nd li,
                       likelihood := Some like, likelihood_gradient := Some like_grad \<rparr>"
    by blast
  from k(1) have "hyp_mat = []" "ky = []" by (simp_all add: demo_build_ky)
  moreover from k(2) have "like = 0" "like_grad = []" by (simp_all add: demo_algebra_def)
  moreover from k(3) \<open>ky = []\<close> have "l = []" by (simp add: demo_algebra_def)
  moreover from k(4) \<open>l = []\<close> have "li = []" by (simp add: demo_algebra_def)
  moreover from k(5) \<open>li = []\<close> have "al = []"
    by (simp add: demo_labels gram_def ncols_def matmul_mv_def)
  moreover have "gram [] = []" by (simp add: gram_def ncols_def)
  ultimately show ?thesis using first k(6) by simp
qed

lemma update_L_alpha_cases:
  "l_mat s \<noteq> PyNone \<Longrightarrow> update_L_alpha A s = (r, s') \<Longrightarrow>
     (\<exists>e. r = Inl e \<and> s' = s) \<or>
     (\<exists>ky l li al.
        r = Inr ()
        \<and> get_ky_mat_update A (np_copy (ky_mat s)) (training_data s) (get_kernel_vector s)
            (hyps s) (par s) (no_cpus s) = Inr ky
        \<and> cholesky A ky = Inr l \<and> linalg_inv A l = Inr li
        \<and> matmul_mv (gram li) (training_labels_np s) = Inr al
        \<and> s' = s\<lparr> ky_mat := Nd ky, l_mat := Nd l, alpha := Nd al,
                   ky_mat_inv := Nd (gram li), l_mat_inv := Nd li \<rparr>)"
  unfolding update_L_alpha_def
  by (auto split: sum.splits)

text \<open>
  Claim C7: on a model that has been factorized (\<^verbatim>\<open>l_mat\<close> is not \<^verbatim>\<open>None\<close>),
  \<^verbatim>\<open>update_L_alpha\<close> leaves \<^verbatim>\<open>likelihood\<close> and \<^verbatim>\<open>likelihood_gradient\<close> as they were,
  whether it returns or raises; when it returns, \<^verbatim>\<open>ky_mat\<close> is the matrix of the
  incremental builder and \<^verbatim>\<open>l_mat\<close>, \<^verbatim>\<open>l_mat_inv\<close>, \<^verbatim>\<open>ky_mat_inv\<close> and \<^verbatim>\<open>alpha\<close> are
  recomputed from that matrix.
\<close>

theorem update_L_alpha_keeps_likelihood:
  "l_mat s \<noteq> PyNone \<Longrightarrow> update_L_alpha A s = (r, s') \<Longrightarrow>
     likelihood s' = likelihood s \<and> likelihood_gradient s' = likelihood_gradient s
     \<and> (r = Inr () \<longrightarrow>
         (\<exists>ky l li al.
            get_ky_mat_update A (np_copy (ky_mat s)) (training_data s) (get_kernel_vector s)
              (hyps s) (par s) (no_cpus s) = Inr ky
            \<and> cholesky A ky = Inr l \<and> linalg_inv A l = Inr li
            \<and> matmul_mv (gram li) (training_labels_np s) = Inr al
            \<and> s' = s\<lparr> ky_mat := Nd ky, l_mat := Nd l, alpha := Nd al,
                       ky_mat_inv := Nd (gram li), l_mat_inv := Nd li \<rparr>))"
  by (drule (1) update_L_alpha_cases) auto

lemma demo_update_run:
  "update_L_alpha (demo_algebra (\<lambda>m. Inr m)) demo_factorized
     = (Inr (), demo_factorized\<lparr> ky_mat := Nd [], l_mat := Nd [], alpha := Nd [],
                                ky_mat_inv := Nd [], l_mat_inv := Nd [] \<rparr>)"
  by (simp add: update_L_alpha_def demo_factorized_def demo_algebra_def demo_gp_def
        init_fields_def gram_def ncols_def matmul_mv_def)

text \<open>
  A factorized model with likelihood 5 and gradient \<open>[7]\<close>: after the update the
  covariance matrix is the new one and the likelihood pair is the old one.
\<close>

theorem update_L_alpha_keeps_likelihood_witness:
  "likelihood (snd (update_L_alpha (demo_algebra (\<lambda>m. Inr m)) demo_factorized)) = Some 5
   \<and> likelihood_gradient (snd (update_L_alpha (demo_algebra (\<lambda>m. Inr m)) demo_factorized)) = Some [7]
   \<and> ky_mat (snd (update_L_alpha (demo_algebra (\<lambda>m. Inr m)) demo_factorized)) = Nd []
   \<and> fst (update_L_alpha (demo_algebra (\<lambda>m. Inr m)) demo_factorized) = Inr ()"
proof -
  let ?A = "demo_algebra (\<lambda>m. Inr m)"
  have a: "l_mat demo_factorized \<noteq> PyNone" by (simp add: demo_factorized_def)
  have b: "update_L_alpha ?A demo_factorized
             = (fst (update_L_alpha ?A demo_factorized), snd (update_L_alpha ?A demo_factorized))"
    by simp
  have c: "likelihood demo_factorized = Some 5" "likelihood_gradient demo_factorized = Some [7]"
    by (simp_all add: demo_factorized_def)
  note t = update_L_alpha_keeps_likelihood [OF a b]
  from t have l1: "likelihood (snd (update_L_alpha ?A demo_factorized)) = likelihood demo_factorized"
    by (rule conjunct1)
  from t have l2: "likelihood_gradient (snd (update_L_alpha ?A demo_factorized))
                     = likelihood_gradient demo_factorized"
    by (rule conjunct1 [OF conjunct2])
  have r: "fst (update_L_alpha ?A demo_factorized) = Inr ()"
          "ky_mat (snd (update_L_alpha ?A demo_factorized)) = Nd []"
    by (simp_all add: demo_update_run)
  from l1 l2 c r show ?thesis by (simp only: simp_thms)
qed

section \<open>Properties of training\<close>

lemma set_L_alpha_frame:
  "set_L_alpha A s = (r, s') \<Longrightarrow>
     algo s' = algo s \<and> hyps s' = hyps s \<and> training_data s' = training_data s
     \<and> training_labels s' = training_labels s \<and> training_labels_np s' = training_labels_np s"
  by (drule set_L_alpha_cases) auto

lemma train_finish_frame:
  assumes "train_finish A res s = (r, s')"
  shows "algo s' = algo s \<and> training_data s' = training_data s
     \<and> training_labels s' = training_labels s \<and> training_labels_np s' = training_labels_np s"
proof (cases res)
  case None
  with assms show ?thesis by (simp add: train_finish_def)
next
  case (Some x)
  obtain q s2 where q: "set_L_alpha A (s\<lparr> hyps := res_x x \<rparr>) = (q, s2)"
    by (cases "set_L_alpha A (s\<lparr> hyps := res_x x \<rparr>)") auto
  from set_L_alpha_frame [OF q] have f: "algo s2 = algo s" "training_data s2 = training_data s"
    "training_labels s2 = training_labels s" "training_labels_np s2 = training_labels_np s"
    by simp_all
  from assms Some q have "s' = s2 \<or> s' = s2\<lparr> likelihood := Some (- res_fun x) \<rparr>
      \<or> (\<exists>g. s' = s2\<lparr> likelihood := Some (- res_fun x), likelihood_gradient := Some g \<rparr>)"
    by (auto simp: train_finish_def split: sum.splits option.splits)
  with f show ?thesis by auto
qed



lemma train_finish_success:
  "train_finish A res s = (Inr u, s') \<Longrightarrow>
     \<exists>r g s2. res = Some r \<and> res_jac r = Some g
       \<and> set_L_alpha A (s\<lparr> hyps := res_x r \<rparr>) = (Inr (), s2)
       \<and> s' = s2\<lparr> likelihood := Some (- res_fun r),
                   likelihood_gradient := Some (map uminus g) \<rparr>"
  unfolding train_finish_def
  by (auto split: option.splits prod.splits sum.splits)

lemma train_select_none:
  "(train_select Opt ta x_0 res s = Inr None)
     = (custom_bounds ta = None \<and> algo s \<noteq> ''BFGS'' \<and> algo s \<noteq> ''nelder-mead'' \<and> res = None)"
  unfolding train_select_def
  by (auto split: sum.splits)

text \<open>
  Claim C6 does not hold of the code on the simplex branch. A result of the
  derivative-free simplex method carries no \<^verbatim>\<open>jac\<close> (scipy's result object raises
  \<^verbatim>\<open>AttributeError\<close> on an attribute it does not have). When a branch has produced
  such a result and the rebuild succeeds, \<^verbatim>\<open>train\<close> has set the hyperparameters,
  rebuilt the factorization and set \<^verbatim>\<open>likelihood\<close>, and then raises at
  \<^verbatim>\<open>-res.jac\<close>: the call does not succeed, and \<^verbatim>\<open>likelihood_gradient\<close> is the
  gradient that the rebuild assigned, not the negated gradient of a result.
\<close>

theorem train_without_jac_raises:
  assumes "train_bounded Opt ta s = (res, s1, printed)"
    and "train_select Opt ta (hyps s) res s1 = Inr (Some r)"
    and "res_jac r = None"
    and "set_L_alpha A (s1\<lparr> hyps := res_x r \<rparr>) = (Inr (), s2)"
  shows "train A Opt ta s
           = (Inl AttributeError, s2\<lparr> likelihood := Some (- res_fun r) \<rparr>, printed)"
  using assms by (simp add: train_def train_finish_def)

text \<open>
  A model built with \<^verbatim>\<open>opt_algorithm='nelder-mead'\<close> and trained: the simplex
  branch runs, the hyperparameters become the result's \<^verbatim>\<open>x\<close>, the factorization is
  rebuilt, \<^verbatim>\<open>likelihood\<close> is the negated objective, and the call raises
  \<^verbatim>\<open>AttributeError\<close> with \<^verbatim>\<open>likelihood_gradient\<close> as the rebuild left it.
\<close>

theorem train_without_jac_raises_witness:
  "train (demo_algebra (\<lambda>m. Inr m)) (demo_optimizer demo_simplex_run) demo_train_args
         (demo_gp ''nelder-mead'')
     = (Inl AttributeError,
        (demo_gp ''nelder-mead'')\<lparr> hyps := [2, 3], ky_mat := Nd [], l_mat := Nd [],
                                    alpha := Nd [], ky_mat_inv := Nd [], l_mat_inv := Nd [],
                                    likelihood := Some (- 4),
                                    likelihood_gradient := Some [] \<rparr>, [])"
proof -
  let ?A = "demo_algebra (\<lambda>m. Inr m)"
  let ?Op = "demo_optimizer demo_simplex_run"
  let ?s = "demo_gp ''nelder-mead''"
  let ?r = "\<lparr> res_x = [2, 3], res_fun = 4, res_jac = None \<rparr>"
  let ?sb = "?s\<lparr> hyps := [2, 3], ky_mat := Nd [], l_mat := Nd [], alpha := Nd [],
                 ky_mat_inv := Nd [], l_mat_inv := Nd [], likelihood := Some 0,
                 likelihood_gradient := Some [] \<rparr>"
  have b: "train_bounded ?Op demo_train_args ?s = (None, ?s, [])"
    by (simp add: train_bounded_def demo_gp_def init_fields_def demo_args_def)
  have sel: "train_select ?Op demo_train_args (hyps ?s) None ?s = Inr (Some ?r)"
    by (simp add: train_select_def demo_gp_def init_fields_def demo_args_def demo_train_args_def
          demo_optimizer_def demo_simplex_run_def)
  have j: "res_jac ?r = None" by simp
  have sl: "set_L_alpha ?A (?s\<lparr> hyps := res_x ?r \<rparr>) = (Inr (), ?sb)"
    by (simp add: set_L_alpha_def build_ky_def demo_algebra_def demo_gp_def init_fields_def
          demo_args_def matmul_mv_def gram_def ncols_def)
  have t: "train ?A ?Op demo_train_args ?s
             = (Inl AttributeError, ?sb\<lparr> likelihood := Some (- res_fun ?r) \<rparr>, [])"
    by (rule train_without_jac_raises [OF b sel j sl])
  have e: "?sb\<lparr> likelihood := Some (- res_fun ?r) \<rparr>
             = ?s\<lparr> hyps := [2, 3], ky_mat := Nd [], l_mat := Nd [], alpha := Nd [],
                   ky_mat_inv := Nd [], l_mat_inv := Nd [], likelihood := Some (- 4),
                   likelihood_gradient := Some [] \<rparr>"
    by (simp add: demo_gp_def init_fields_def demo_args_def)
  show ?thesis unfolding t e by (rule refl)
qed

text \<open>
  The calls of \<^verbatim>\<open>train\<close> that return: a branch of the optimization has produced a
  result that carries a gradient; the hyperparameters of the model are that
  result's \<^verbatim>\<open>x\<close>, \<^verbatim>\<open>set_L_alpha\<close> has run on the model with these hyperparameters,
  and \<^verbatim>\<open>likelihood\<close> and \<^verbatim>\<open>likelihood_gradient\<close> are the negated \<^verbatim>\<open>fun\<close> and \<^verbatim>\<open>jac\<close>
  of the result. When no branch has produced a result, which is the case when no
  custom bounds are given and the algorithm is none of the three, \<^verbatim>\<open>train\<close> raises
  its \<^verbatim>\<open>RuntimeError\<close>.
\<close>

lemma train_returns:
  "(\<forall>u s' printed. train A Opt ta s = (Inr u, s', printed) \<longrightarrow>
      (\<exists>res s1 r g s2.
         train_bounded Opt ta s = (res, s1, printed)
         \<and> train_select Opt ta (hyps s) res s1 = Inr (Some r)
         \<and> res_jac r = Some g
         \<and> set_L_alpha A (s1\<lparr> hyps := res_x r \<rparr>) = (Inr (), s2)
         \<and> s' = s2\<lparr> likelihood := Some (- res_fun r),
                     likelihood_gradient := Some (map uminus g) \<rparr>
         \<and> hyps s' = res_x r))
   \<and> (\<forall>res s1 printed.
         train_bounded Opt ta s = (res, s1, printed)
         \<and> train_select Opt ta (hyps s) res s1 = Inr None
         \<longrightarrow> train A Opt ta s = (Inl RuntimeError, s1, printed))
   \<and> (custom_bounds ta = None \<and> algo s \<noteq> ''L-BFGS-B'' \<and> algo s \<noteq> ''BFGS''
        \<and> algo s \<noteq> ''nelder-mead''
        \<longrightarrow> train A Opt ta s = (Inl RuntimeError, s, []))"
proof (intro conjI allI impI)
  fix u s' printed
  assume t: "train A Opt ta s = (Inr u, s', printed)"
  obtain res s1 pr where b: "train_bounded Opt ta s = (res, s1, pr)"
    by (cases "train_bounded Opt ta s") auto
  from t b obtain res' where
    sel: "train_select Opt ta (hyps s) res s1 = Inr res'"
    and fin: "train_finish A res' s1 = (Inr u, s')" and pr: "pr = printed"
    unfolding train_def by (auto split: sum.splits prod.splits)
  from train_finish_success [OF fin] obtain r g s2 where
    k: "res' = Some r" "res_jac r = Some g"
       "set_L_alpha A (s1\<lparr> hyps := res_x r \<rparr>) = (Inr (), s2)"
       "s' = s2\<lparr> likelihood := Some (- res_fun r),
                  likelihood_gradient := Some (map uminus g) \<rparr>"
    by blast
  from set_L_alpha_frame [OF k(3)] k(4) have "hyps s' = res_x r" by simp
  with b sel pr k
  show "\<exists>res s1 r g s2.
         train_bounded Opt ta s = (res, s1, printed)
         \<and> train_select Opt ta (hyps s) res s1 = Inr (Some r)
         \<and> res_jac r = Some g
         \<and> set_L_alpha A (s1\<lparr> hyps := res_x r \<rparr>) = (Inr (), s2)
         \<and> s' = s2\<lparr> likelihood := Some (- res_fun r),
                     likelihood_gradient := Some (map uminus g) \<rparr>
         \<and> hyps s' = res_x r"
    by blast
next
  fix res s1 printed
  assume "train_bounded Opt ta s = (res, s1, printed)
         \<and> train_select Opt ta (hyps s) res s1 = Inr None"
  then show "train A Opt ta s = (Inl RuntimeError, s1, printed)"
    by (simp add: train_def train_finish_def)
next
  assume a: "custom_bounds ta = None \<and> algo s \<noteq> ''L-BFGS-B'' \<and> algo s \<noteq> ''BFGS''
        \<and> algo s \<noteq> ''nelder-mead''"
  then have "train_bounded Opt ta s = (None, s, [])" by (simp add: train_bounded_def)
  moreover from a have "train_select Opt ta (hyps s) None s = Inr None"
    by (simp add: train_select_none)
  ultimately show "train A Opt ta s = (Inl RuntimeError, s, [])"
    by (simp add: train_def train_finish_def)
qed





lemma objective_func_algo:
  "objective_func Opt (s\<lparr> algo := a \<rparr>) ta = objective_func Opt s ta"
  by (simp add: objective_func_def)

lemma train_select_bfgs:
  "custom_bounds ta = None \<Longrightarrow>
     train_select Opt ta x_0 res (s\<lparr> algo := ''BFGS'' \<rparr>)
       = (case minimize Opt (objective_func Opt s ta) x_0 ''BFGS'' True None (bfgs_options ta s) of
            Inl e \<Rightarrow> Inl e
          | Inr r \<Rightarrow> Inr (Some r))"
  by (simp add: train_select_def bfgs_options_def objective_func_algo)

text \<open>
  Claim C2, amended: when \<^verbatim>\<open>train\<close> runs with \<^verbatim>\<open>algo == 'L-BFGS-B'\<close> and the
  bounded optimization raises, the warning is printed, \<^verbatim>\<open>algo\<close> is \<^verbatim>\<open>'BFGS'\<close> when
  the call ends, and, when no custom bounds were supplied, the unconstrained method
  runs in the same call: if that run raises, its error reaches the caller (with
  the model changed in \<^verbatim>\<open>algo\<close> only); if it returns, the call ends as the last
  part of \<^verbatim>\<open>train\<close> ends on its result, so it completes without raising exactly when
  the rebuild succeeds and the result carries a gradient.
\<close>

theorem train_fallback:
  assumes a: "algo s = ''L-BFGS-B''"
    and f: "minimize Opt (objective_func Opt s ta) (hyps s) ''L-BFGS-B'' True
              (Some (default_bounds s)) (lbfgsb_options ta s) = Inl e"
  shows "\<exists>r s'. train A Opt ta s = (r, s', [bfgs_warning]) \<and> algo s' = ''BFGS''
           \<and> (custom_bounds ta = None \<longrightarrow>
                (case minimize Opt (objective_func Opt s ta) (hyps s) ''BFGS'' True None
                        (bfgs_options ta s) of
                   Inl e' \<Rightarrow> r = Inl e' \<and> s' = s\<lparr> algo := ''BFGS'' \<rparr>
                 | Inr res \<Rightarrow> (r, s') = train_finish A (Some res) (s\<lparr> algo := ''BFGS'' \<rparr>)))"
proof -
  let ?s1 = "s\<lparr> algo := ''BFGS'' \<rparr>"
  let ?M = "minimize Opt (objective_func Opt s ta) (hyps s) ''BFGS'' True None (bfgs_options ta s)"
  have b: "train_bounded Opt ta s = (None, ?s1, [bfgs_warning])"
    using a f by (simp add: train_bounded_def)
  have al1: "algo ?s1 = ''BFGS''" by simp
  show ?thesis
  proof (cases "train_select Opt ta (hyps s) None ?s1")
    case (Inl e')
    with b have t: "train A Opt ta s = (Inl e', ?s1, [bfgs_warning])"
      by (simp add: train_def)
    have c: "custom_bounds ta = None \<longrightarrow>
               (case ?M of Inl e'' \<Rightarrow> Inl e' = Inl e'' \<and> ?s1 = ?s1
                | Inr res \<Rightarrow> (Inl e', ?s1) = train_finish A (Some res) ?s1)"
    proof
      assume "custom_bounds ta = None"
      from train_select_bfgs [OF this, of Opt "hyps s" None s] Inl
      have "?M = Inl e'" by (cases ?M) simp_all
      then show "case ?M of Inl e'' \<Rightarrow> Inl e' = Inl e'' \<and> ?s1 = ?s1
                | Inr res \<Rightarrow> (Inl e', ?s1) = train_finish A (Some res) ?s1"
        by simp
    qed
    show ?thesis
      by (rule exI [of _ "Inl e'"], rule exI [of _ ?s1]) (intro conjI t al1 c)
  next
    case (Inr res')
    obtain r s2 where fin: "train_finish A res' ?s1 = (r, s2)"
      by (cases "train_finish A res' ?s1") auto
    with b Inr have t: "train A Opt ta s = (r, s2, [bfgs_warning])"
      by (simp add: train_def)
    from train_finish_frame [OF fin] have al: "algo s2 = ''BFGS''" by simp
    have c: "custom_bounds ta = None \<longrightarrow>
               (case ?M of Inl e'' \<Rightarrow> r = Inl e'' \<and> s2 = ?s1
                | Inr res \<Rightarrow> (r, s2) = train_finish A (Some res) ?s1)"
    proof
      assume "custom_bounds ta = None"
      from train_select_bfgs [OF this, of Opt "hyps s" None s] Inr
      obtain res where "?M = Inr res" "res' = Some res" by (cases ?M) simp_all
      with fin show "case ?M of Inl e'' \<Rightarrow> r = Inl e'' \<and> s2 = ?s1
                | Inr res \<Rightarrow> (r, s2) = train_finish A (Some res) ?s1"
        by simp
    qed
    show ?thesis
      by (rule exI [of _ r], rule exI [of _ s2]) (intro conjI t al c)
  qed
qed

text \<open>
  Claim C2, as stated, fails: when the objective raises in the unconstrained run
  as well, the fallback does not complete; the error reaches the caller, after
  the warning and the change of \<^verbatim>\<open>algo\<close>.
\<close>

theorem train_fallback_counterexample:
  "train (demo_algebra (\<lambda>m. Inr m)) (demo_optimizer (\<lambda>method. Inl (Raised ''nan'')))
         demo_train_args (demo_gp ''L-BFGS-B'')
     = (Inl (Raised ''nan''), (demo_gp ''L-BFGS-B'')\<lparr> algo := ''BFGS'' \<rparr>, [bfgs_warning])"
  by (simp add: train_def train_bounded_def train_select_def demo_optimizer_def demo_gp_def
        init_fields_def demo_args_def demo_train_args_def)


lemma demo_train_run:
  "train (demo_algebra (\<lambda>m. Inr m)) (demo_optimizer demo_fallback_run) demo_train_args (demo_gp alg)
     = (if alg = ''L-BFGS-B'' \<or> alg = ''BFGS'' \<or> alg = ''nelder-mead'' then
          (Inr (),
           (demo_gp alg)\<lparr> hyps := [2, 3], algo := (if alg = ''L-BFGS-B'' then ''BFGS'' else alg),
                           ky_mat := Nd [], l_mat := Nd [], alpha := Nd [],
                           ky_mat_inv := Nd [], l_mat_inv := Nd [],
                           likelihood := Some (- 4), likelihood_gradient := Some [- 5, - 6] \<rparr>,
           if alg = ''L-BFGS-B'' then [bfgs_warning] else [])
        else (Inl RuntimeError, demo_gp alg, []))"
  by (simp add: train_def train_bounded_def train_select_def train_finish_def set_L_alpha_def
        build_ky_def demo_optimizer_def demo_fallback_run_def demo_result_def demo_algebra_def
        demo_gp_def init_fields_def demo_args_def demo_train_args_def matmul_mv_def gram_def
        ncols_def)

text \<open>
  A run with the unconstrained method returns with the hyperparameters and the
  negated objective of the optimizer's result; a run with an algorithm that is
  none of the three raises.
\<close>

lemma train_returns_demo:
  "fst (train (demo_algebra (\<lambda>m. Inr m)) (demo_optimizer demo_fallback_run) demo_train_args
          (demo_gp ''BFGS'')) = Inr ()
   \<and> hyps (fst (snd (train (demo_algebra (\<lambda>m. Inr m)) (demo_optimizer demo_fallback_run)
          demo_train_args (demo_gp ''BFGS'')))) = res_x demo_result
   \<and> likelihood (fst (snd (train (demo_algebra (\<lambda>m. Inr m)) (demo_optimizer demo_fallback_run)
          demo_train_args (demo_gp ''BFGS'')))) = Some (- 4)
   \<and> likelihood_gradient (fst (snd (train (demo_algebra (\<lambda>m. Inr m))
          (demo_optimizer demo_fallback_run) demo_train_args (demo_gp ''BFGS'')))) = Some [- 5, - 6]
   \<and> train (demo_algebra (\<lambda>m. Inr m)) (demo_optimizer demo_fallback_run) demo_train_args
          (demo_gp ''newton'') = (Inl RuntimeError, demo_gp ''newton'', [])"
proof -
  let ?A = "demo_algebra (\<lambda>m. Inr m)"
  let ?O = "demo_optimizer demo_fallback_run"
  let ?t = "train ?A ?O demo_train_args (demo_gp ''BFGS'')"
  note th = train_returns [of ?A ?O demo_train_args]
  have run: "?t = (Inr (), fst (snd ?t), [])"
    by (simp add: demo_train_run)
  from th [of "demo_gp ''BFGS''", THEN conjunct1, rule_format, OF run]
  obtain res s1 r g s2 where
    k: "train_bounded ?O demo_train_args (demo_gp ''BFGS'') = (res, s1, [])"
       "train_select ?O demo_train_args (hyps (demo_gp ''BFGS'')) res s1 = Inr (Some r)"
       "hyps (fst (snd ?t)) = res_x r"
    by blast
  from k(1) have "s1 = demo_gp ''BFGS''" "res = None"
    by (simp_all add: train_bounded_def demo_gp_def init_fields_def demo_args_def)
  with k(2) have "r = demo_result"
    by (simp add: train_select_def demo_gp_def init_fields_def demo_args_def demo_train_args_def
          demo_optimizer_def demo_fallback_run_def)
  with k(3) have h: "hyps (fst (snd ?t)) = res_x demo_result" by simp
  have c: "custom_bounds demo_train_args = None \<and> algo (demo_gp ''newton'') \<noteq> ''L-BFGS-B''
           \<and> algo (demo_gp ''newton'') \<noteq> ''BFGS'' \<and> algo (demo_gp ''newton'') \<noteq> ''nelder-mead''"
    by (simp add: demo_train_args_def demo_gp_def init_fields_def demo_args_def)
  from th [of "demo_gp ''newton''", THEN conjunct2, THEN conjunct2, rule_format, OF c]
  have e: "train ?A ?O demo_train_args (demo_gp ''newton'') = (Inl RuntimeError, demo_gp ''newton'', [])" .
  have l: "fst ?t = Inr ()" "likelihood (fst (snd ?t)) = Some (- 4)"
          "likelihood_gradient (fst (snd ?t)) = Some [- 5, - 6]"
    by (simp_all add: demo_train_run)
  from h e l show ?thesis by (simp only: simp_thms)
qed

text \<open>
  The bounded method raises, the unconstrained one returns: the call returns, the
  warning has been printed and \<^verbatim>\<open>algo\<close> is \<^verbatim>\<open>'BFGS'\<close>.
\<close>

theorem train_fallback_witness:
  "fst (train (demo_algebra (\<lambda>m. Inr m)) (demo_optimizer demo_fallback_run) demo_train_args
          (demo_gp ''L-BFGS-B'')) = Inr ()
   \<and> algo (fst (snd (train (demo_algebra (\<lambda>m. Inr m)) (demo_optimizer demo_fallback_run)
          demo_train_args (demo_gp ''L-BFGS-B'')))) = ''BFGS''
   \<and> snd (snd (train (demo_algebra (\<lambda>m. Inr m)) (demo_optimizer demo_fallback_run)
          demo_train_args (demo_gp ''L-BFGS-B''))) = [bfgs_warning]"
proof -
  let ?A = "demo_algebra (\<lambda>m. Inr m)"
  let ?O = "demo_optimizer demo_fallback_run"
  let ?s = "demo_gp ''L-BFGS-B''"
  let ?t = "train ?A ?O demo_train_args ?s"
  have a: "algo ?s = ''L-BFGS-B''"
    by (simp add: demo_gp_def init_fields_def demo_args_def)
  have f: "minimize ?O (objective_func ?O ?s demo_train_args) (hyps ?s) ''L-BFGS-B'' True
             (Some (default_bounds ?s)) (lbfgsb_options demo_train_args ?s) = Inl (Raised ''nan'')"
    by (simp add: demo_optimizer_def demo_fallback_run_def)
  from train_fallback [OF a f, of ?A]
  obtain r s' where k: "?t = (r, s', [bfgs_warning])" "algo s' = ''BFGS''" by blast
  from k have "algo (fst (snd ?t)) = ''BFGS''" "snd (snd ?t) = [bfgs_warning]" by simp_all
  moreover have "fst ?t = Inr ()" by (simp add: demo_train_run)
  ultimately show ?thesis by (simp only: simp_thms)
qed

section \<open>Properties of prediction\<close>


lemma en_kern_vec_length:
  "en_kern_vec s x = Inr k_v \<Longrightarrow> length k_v = 3 * length (training_data s)"
  by (auto simp: en_kern_vec_def Let_def split: option.splits if_splits)

lemma en_kern_vec_error:
  "en_kern_vec s x = Inl e \<Longrightarrow> e = TypeError"
  by (auto simp: en_kern_vec_def Let_def split: option.splits if_splits)

lemma matmul_vv_violation:
  "\<forall>a. c = Nd a \<longrightarrow> length k_v \<noteq> length a \<Longrightarrow> matmul_vv k_v c = Inl ValueError"
  by (cases c) (simp_all add: matmul_vv_def)

text \<open>
  Claim C4, amended: when \<^verbatim>\<open>alpha\<close> is \<^verbatim>\<open>None\<close> or has a length other than three
  times the number of training points, \<^verbatim>\<open>predict\<close> fails on its assertion before
  it returns a result (on a zero-dimensional \<^verbatim>\<open>alpha\<close>, as \<^verbatim>\<open>from_dict\<close> leaves it
  when nothing was cached, the test itself raises a \<^verbatim>\<open>TypeError\<close>).
  \<^verbatim>\<open>predict_local_energy\<close> and \<^verbatim>\<open>predict_local_energy_and_var\<close> contain no assertion:
  with such an \<^verbatim>\<open>alpha\<close> they fail as well, in the product of the kernel vector
  with \<^verbatim>\<open>alpha\<close> (a \<^verbatim>\<open>ValueError\<close> of numpy) or before it in the call of an
  energy/force kernel that is \<^verbatim>\<open>None\<close> (a \<^verbatim>\<open>TypeError\<close>). None of the three
  assigns an attribute of the model, so nothing is rebuilt.
\<close>

theorem prediction_precondition:
  assumes v: "\<forall>a. alpha s = Nd a \<longrightarrow> 3 * length (training_data s) \<noteq> length a"
  shows "(alpha s \<noteq> NdNone \<longrightarrow> predict s x_t d = Inl AssertionError)
       \<and> (alpha s = NdNone \<longrightarrow> predict s x_t d = Inl TypeError)
       \<and> (predict_local_energy s x_t = Inl TypeError
            \<or> predict_local_energy s x_t = Inl ValueError)
       \<and> (predict_local_energy_and_var A s x_t = Inl TypeError
            \<or> predict_local_energy_and_var A s x_t = Inl ValueError)"
proof -
  have p1: "alpha s \<noteq> NdNone \<longrightarrow> predict s x_t d = Inl AssertionError"
    using v by (cases "alpha s") (simp_all add: predict_def alpha_current_def Let_def)
  have p2: "alpha s = NdNone \<longrightarrow> predict s x_t d = Inl TypeError"
    by (simp add: predict_def alpha_current_def Let_def)
  have e: "en_kern_vec s x_t = Inl TypeError
           \<or> (\<exists>k_v. en_kern_vec s x_t = Inr k_v \<and> matmul_vv k_v (alpha s) = Inl ValueError)"
  proof (cases "en_kern_vec s x_t")
    case (Inl e)
    with en_kern_vec_error [OF Inl] show ?thesis by simp
  next
    case (Inr k_v)
    from en_kern_vec_length [OF Inr] v
    have "\<forall>a. alpha s = Nd a \<longrightarrow> length k_v \<noteq> length a" by simp
    from matmul_vv_violation [OF this] Inr show ?thesis by simp
  qed
  from e have p3: "predict_local_energy s x_t = Inl TypeError
            \<or> predict_local_energy s x_t = Inl ValueError"
    by (auto simp: predict_local_energy_def)
  from e have p4: "predict_local_energy_and_var A s x_t = Inl TypeError
            \<or> predict_local_energy_and_var A s x_t = Inl ValueError"
    by (auto simp: predict_local_energy_and_var_def)
  from p1 p2 p3 p4 show ?thesis by (intro conjI)
qed

lemma demo_stale_eval:
  "predict demo_stale 0 1 = Inl AssertionError"
  "predict_local_energy demo_stale 0 = Inl ValueError"
  "predict_local_energy_and_var (demo_algebra (\<lambda>m. Inr m)) demo_stale 0 = Inl ValueError"
  by (simp_all add: predict_def predict_local_energy_def predict_local_energy_and_var_def
        alpha_current_def en_kern_vec_def matmul_vv_def demo_stale_def demo_factorized_def
        demo_gp_def init_fields_def demo_args_def Let_def)

section \<open>Properties of the training set\<close>

lemma fold_append_one: "fold (\<lambda>c a. a @ [c]) xs acc = acc @ xs"
  by (induction xs arbitrary: acc) simp_all

lemma fold_append_all: "fold (\<lambda>f a. a @ f) fs acc = acc @ concat fs"
  by (induction fs arbitrary: acc) simp_all

lemma force_list_to_np_concat: "force_list_to_np fs = concat fs"
  by (simp add: force_list_to_np_def fold_append_one fold_append_all)

lemma length_concat_3: "\<forall>f \<in> set fs. length f = 3 \<Longrightarrow> length (concat fs) = 3 * length fs"
  by (induction fs) simp_all

lemma update_db_loop_lengths:
  "update_db_loop mk st forces idx s = (r, s') \<Longrightarrow>
     length (training_data s) = length (training_labels s) \<Longrightarrow>
     length (training_data s') = length (training_labels s')"
proof (induction idx arbitrary: s)
  case Nil
  then show ?case by simp
next
  case (Cons atom rest)
  show ?case
  proof (cases "mk st atom (cutoffs s)")
    case (Inl e)
    with Cons.prems show ?thesis by simp
  next
    case (Inr env_curr)
    show ?thesis
    proof (cases "py_getitem forces atom")
      case (Inl e)
      with Cons.prems Inr show ?thesis by simp
    next
      case f: (Inr forces_curr)
      let ?s = "s\<lparr> training_data := training_data s @ [env_curr],
                     training_labels := training_labels s @ [forces_curr] \<rparr>"
      from Cons.prems Inr f have "update_db_loop mk st forces rest ?s = (r, s')" by simp
      moreover from Cons.prems have "length (training_data ?s) = length (training_labels ?s)"
        by simp
      ultimately show ?thesis by (rule Cons.IH)
    qed
  qed
qed

lemma update_db_result:
  assumes "update_db mk st forces cr s = (Inr u, s')"
  shows "training_labels_np s' = concat (training_labels s')
       \<and> (length (training_data s) = length (training_labels s)
            \<longrightarrow> length (training_data s') = length (training_labels s'))"
proof -
  let ?idx = "if cr \<noteq> [] then cr else map int [0..<length (positions st)]"
  obtain r s1 where l: "update_db_loop mk st forces ?idx s = (r, s1)"
    by (cases "update_db_loop mk st forces ?idx s") auto
  with assms have s': "s' = s1\<lparr> training_labels_np := force_list_to_np (training_labels s1) \<rparr>"
    by (auto simp: update_db_def Let_def split: sum.splits)
  from update_db_loop_lengths [OF l] s'
  show ?thesis by (simp add: force_list_to_np_concat)
qed

lemma train_bounded_frame:
  "train_bounded Opt ta s = (res, s1, pr) \<Longrightarrow> s1 = s \<or> s1 = s\<lparr> algo := ''BFGS'' \<rparr>"
  by (auto simp: train_bounded_def split: if_splits sum.splits)

lemma train_frame:
  assumes "train A Opt ta s = (r, s', out)"
  shows "training_data s' = training_data s \<and> training_labels s' = training_labels s
       \<and> training_labels_np s' = training_labels_np s"
proof -
  obtain res s1 pr where b: "train_bounded Opt ta s = (res, s1, pr)"
    by (cases "train_bounded Opt ta s") auto
  from train_bounded_frame [OF b]
  have f1: "training_data s1 = training_data s" "training_labels s1 = training_labels s"
       "training_labels_np s1 = training_labels_np s"
    by auto
  show ?thesis
  proof (cases "train_select Opt ta (hyps s) res s1")
    case (Inl e)
    with assms b have "s' = s1" by (simp add: train_def)
    with f1 show ?thesis by simp
  next
    case (Inr res')
    obtain q s2 where fin: "train_finish A res' s1 = (q, s2)"
      by (cases "train_finish A res' s1") auto
    with assms b Inr have "s' = s2" by (simp add: train_def)
    with train_finish_frame [OF fin] f1 show ?thesis by simp
  qed
qed

lemma add_one_env_result:
  assumes "add_one_env A Opt env force do_train ta s = (r, s', out)"
  shows "training_labels_np s' = concat (training_labels s')
       \<and> (length (training_data s) = length (training_labels s)
            \<longrightarrow> length (training_data s') = length (training_labels s'))"
proof -
  let ?s1 = "s\<lparr> training_data := training_data s @ [env],
                  training_labels := training_labels s @ [force] \<rparr>"
  let ?s2 = "?s1\<lparr> training_labels_np := force_list_to_np (training_labels ?s1) \<rparr>"
  have g: "training_labels_np ?s2 = concat (training_labels ?s2)"
    by (simp add: force_list_to_np_concat)
  show ?thesis
  proof (cases do_train)
    case True
    with assms have "train A Opt ta ?s2 = (r, s', out)" by (simp add: add_one_env_def Let_def)
    from train_frame [OF this] g show ?thesis by simp
  next
    case False
    with assms have "s' = ?s2" by (simp add: add_one_env_def Let_def)
    with g show ?thesis by simp
  qed
qed

text \<open>
  Claim C8, as stated, fails: \<^verbatim>\<open>update_db\<close> recomputes \<^verbatim>\<open>training_labels_np\<close> after
  its loop only, so a call that raises inside the loop leaves the entries it has
  appended without their labels in the flat vector. On a structure of two atoms
  with one force, the first atom is stored, \<^verbatim>\<open>forces[1]\<close> raises \<^verbatim>\<open>IndexError\<close>, and
  the model holds one training point and one force vector beside an empty
  \<^verbatim>\<open>training_labels_np\<close>.
\<close>

theorem training_labels_np_stale_counterexample:
  "update_db demo_mk_env demo_struc [[1, 2, 3]] [] (demo_gp ''BFGS'')
     = (Inl IndexError,
        (demo_gp ''BFGS'')\<lparr> training_data := [0], training_labels := [[1, 2, 3]] \<rparr>)
   \<and> training_labels_np (snd (update_db demo_mk_env demo_struc [[1, 2, 3]] [] (demo_gp ''BFGS'')))
       = []
   \<and> concat (training_labels (snd (update_db demo_mk_env demo_struc [[1, 2, 3]] []
       (demo_gp ''BFGS'')))) = [1, 2, 3]
   \<and> length (training_data (snd (update_db demo_mk_env demo_struc [[1, 2, 3]] []
       (demo_gp ''BFGS'')))) = 1"
  by (simp add: update_db_def demo_struc_def demo_mk_env_def py_getitem_def
        demo_gp_def init_fields_def demo_args_def upt_conv_Cons)

text \<open>
  Claim C8, amended: after every call of \<^verbatim>\<open>update_db\<close> that returns, over any selection of
  atom indices, and after every call of \<^verbatim>\<open>add_one_env\<close> (with or without the
  training pass, returned or raised), \<^verbatim>\<open>training_labels_np\<close> is the concatenation
  of the stored force vectors in entry order; when the model had as many labels
  as environments before the call and every stored force has three components,
  its length is three times the number of training points. \<^verbatim>\<open>force_list_to_np\<close>
  depends on its argument only: it is the concatenation.
\<close>

theorem training_labels_np_flat:
  "(\<forall>u s'. update_db mk st forces cr s = (Inr u, s') \<longrightarrow>
      training_labels_np s' = concat (training_labels s')
      \<and> (length (training_data s) = length (training_labels s)
           \<and> (\<forall>f \<in> set (training_labels s'). length f = 3)
           \<longrightarrow> length (training_labels_np s') = 3 * length (training_data s')))
   \<and> (\<forall>r s' out. add_one_env A Opt env force do_train ta s = (r, s', out) \<longrightarrow>
      training_labels_np s' = concat (training_labels s')
      \<and> (length (training_data s) = length (training_labels s)
           \<and> (\<forall>f \<in> set (training_labels s'). length f = 3)
           \<longrightarrow> length (training_labels_np s') = 3 * length (training_data s')))
   \<and> force_list_to_np fs = concat fs"
proof (intro conjI allI impI)
  fix u s' assume a: "update_db mk st forces cr s = (Inr u, s')"
  from update_db_result [OF a] show "training_labels_np s' = concat (training_labels s')" by simp
  assume "length (training_data s) = length (training_labels s)
           \<and> (\<forall>f \<in> set (training_labels s'). length f = 3)"
  with update_db_result [OF a] length_concat_3 [of "training_labels s'"]
  show "length (training_labels_np s') = 3 * length (training_data s')" by simp
next
  fix r s' out assume a: "add_one_env A Opt env force do_train ta s = (r, s', out)"
  from add_one_env_result [OF a] show "training_labels_np s' = concat (training_labels s')" by simp
  assume "length (training_data s) = length (training_labels s)
           \<and> (\<forall>f \<in> set (training_labels s'). length f = 3)"
  with add_one_env_result [OF a] length_concat_3 [of "training_labels s'"]
  show "length (training_labels_np s') = 3 * length (training_data s')" by simp
next
  show "force_list_to_np fs = concat fs" by (rule force_list_to_np_concat)
qed

lemma demo_update_db_run:
  "update_db demo_mk_env demo_struc [[1, 2, 3], [4, 5, 6]] [] (demo_gp ''BFGS'')
     = (Inr (), (demo_gp ''BFGS'')\<lparr> training_data := [0, 1],
                                   training_labels := [[1, 2, 3], [4, 5, 6]],
                                   training_labels_np := [1, 2, 3, 4, 5, 6] \<rparr>)"
  by (simp add: update_db_def demo_struc_def demo_mk_env_def py_getitem_def force_list_to_np_def
        demo_gp_def init_fields_def demo_args_def upt_conv_Cons)

lemma demo_add_one_env_run:
  "add_one_env A Opt 7 [1, 2, 3] False ta (demo_gp ''BFGS'')
     = (Inr (), (demo_gp ''BFGS'')\<lparr> training_data := [7], training_labels := [[1, 2, 3]],
                                   training_labels_np := [1, 2, 3] \<rparr>, [])"
  by (simp add: add_one_env_def force_list_to_np_def demo_gp_def init_fields_def demo_args_def)

text \<open>
  Two atoms with their forces added by \<^verbatim>\<open>update_db\<close> give the six labels in order;
  one environment added by \<^verbatim>\<open>add_one_env\<close> gives three.
\<close>

theorem training_labels_np_flat_witness:
  "training_labels_np (snd (update_db demo_mk_env demo_struc [[1, 2, 3], [4, 5, 6]] []
                               (demo_gp ''BFGS''))) = [1, 2, 3, 4, 5, 6]
   \<and> length (training_labels_np (snd (update_db demo_mk_env demo_struc [[1, 2, 3], [4, 5, 6]] []
                               (demo_gp ''BFGS''))))
       = 3 * length (training_data (snd (update_db demo_mk_env demo_struc
                               [[1, 2, 3], [4, 5, 6]] [] (demo_gp ''BFGS''))))
   \<and> length (training_labels_np (fst (snd (add_one_env (demo_algebra (\<lambda>m. Inr m))
                               (demo_optimizer demo_fallback_run) 7 [1, 2, 3] False
                               demo_train_args (demo_gp ''BFGS'')))))
       = 3 * length (training_data (fst (snd (add_one_env (demo_algebra (\<lambda>m. Inr m))
                               (demo_optimizer demo_fallback_run) 7 [1, 2, 3] False
                               demo_train_args (demo_gp ''BFGS'')))))"
proof -
  let ?A = "demo_algebra (\<lambda>m. Inr m)"
  let ?O = "demo_optimizer demo_fallback_run"
  let ?s = "demo_gp ''BFGS''"
  let ?u = "update_db demo_mk_env demo_struc [[1, 2, 3], [4, 5, 6]] [] ?s"
  let ?a = "add_one_env ?A ?O 7 [1, 2, 3] False demo_train_args ?s"
  note th = training_labels_np_flat [of demo_mk_env demo_struc "[[1, 2, 3], [4, 5, 6]]" "[]" ?s
              ?A ?O 7 "[1, 2, 3]" False demo_train_args "[]"]
  have ru: "?u = (Inr (), snd ?u)" by (simp add: demo_update_db_run)
  have ra: "?a = (fst ?a, fst (snd ?a), snd (snd ?a))" by simp
  have l0: "length (training_data ?s) = length (training_labels ?s)"
    by (simp add: demo_gp_def init_fields_def)
  have lu: "\<forall>f \<in> set (training_labels (snd ?u)). length f = 3"
    by (simp add: demo_update_db_run)
  have la: "\<forall>f \<in> set (training_labels (fst (snd ?a))). length f = 3"
    by (simp add: demo_add_one_env_run)
  from th [THEN conjunct1, rule_format, OF ru]
  have u1: "training_labels_np (snd ?u) = concat (training_labels (snd ?u))"
    and u2: "length (training_data ?s) = length (training_labels ?s)
           \<and> (\<forall>f \<in> set (training_labels (snd ?u)). length f = 3)
           \<longrightarrow> length (training_labels_np (snd ?u)) = 3 * length (training_data (snd ?u))"
    by (rule conjunct1, rule conjunct2)
  from u2 l0 lu have u3: "length (training_labels_np (snd ?u)) = 3 * length (training_data (snd ?u))"
    by blast
  have u4: "training_labels_np (snd ?u) = [1, 2, 3, 4, 5, 6]"
    by (simp add: demo_update_db_run)
  from th [THEN conjunct2, THEN conjunct1, rule_format, OF ra]
  have a2: "length (training_data ?s) = length (training_labels ?s)
           \<and> (\<forall>f \<in> set (training_labels (fst (snd ?a))). length f = 3)
           \<longrightarrow> length (training_labels_np (fst (snd ?a))) = 3 * length (training_data (fst (snd ?a)))"
    by (rule conjunct2)
  from a2 l0 la have a3: "length (training_labels_np (fst (snd ?a))) = 3 * length (training_data (fst (snd ?a)))"
    by blast
  from u4 u3 a3 show ?thesis by (intro conjI)
qed

section \<open>More on prediction\<close>

text \<open>
  On a model whose \<^verbatim>\<open>alpha\<close> has one entry for one training point, \<^verbatim>\<open>predict\<close>
  fails on the assertion and the two energy predictions fail in the product.
\<close>

theorem prediction_precondition_witness:
  "predict demo_stale 0 1 = Inl AssertionError
   \<and> predict_local_energy demo_stale 0 = Inl ValueError
   \<and> predict_local_energy_and_var (demo_algebra (\<lambda>m. Inr m)) demo_stale 0 = Inl ValueError"
proof -
  have v: "\<forall>a. alpha demo_stale = Nd a \<longrightarrow> 3 * length (training_data demo_stale) \<noteq> length a"
    by (simp add: demo_stale_def demo_factorized_def)
  have n: "alpha demo_stale \<noteq> NdNone" by (simp add: demo_stale_def demo_factorized_def)
  from prediction_precondition [OF v, of 0 1, THEN conjunct1] n
  have "predict demo_stale 0 1 = Inl AssertionError" by (rule mp)
  with demo_stale_eval(2,3) show ?thesis by (simp only: simp_thms)
qed

text \<open>
  Claim C4, as stated, fails: the two energy predictions do not assert the
  precondition. On a stale \<^verbatim>\<open>alpha\<close> they do not end in the assertion error of
  \<^verbatim>\<open>predict\<close> but in the shape error of the product.
\<close>

theorem prediction_assertion_counterexample:
  "predict_local_energy demo_stale 0 = Inl ValueError
   \<and> predict_local_energy_and_var (demo_algebra (\<lambda>m. Inr m)) demo_stale 0 = Inl ValueError"
  using demo_stale_eval(2,3) by (simp only: simp_thms)

section \<open>Properties of the dictionary representation\<close>

lemma init_hyps: "init W a = Inr g \<Longrightarrow> hyps g = arg_hyps a"
  by (auto simp: init_def init_fields_def split: mask_arg.splits if_splits sum.splits)

lemma init_total:
  assumes "arg_multihyps a \<longrightarrow>
             (\<forall>m. arg_hyps_mask a = ArgDict m \<longrightarrow>
                  mask_int64 m \<and> mask_relations m (length (arg_hyps a)))"
  shows "\<exists>g. init W a = Inr g"
proof (cases "arg_hyps_mask a")
  case (ArgDict m)
  show ?thesis
  proof (cases "arg_multihyps a")
    case True
    with assms ArgDict have "check_hyps_mask W m (length (arg_hyps a)) = Inr ()"
      by (simp add: check_hyps_mask_iff)
    with ArgDict True show ?thesis by (simp add: init_def)
  next
    case False
    with ArgDict show ?thesis by (simp add: init_def)
  qed
qed (simp_all add: init_def)

lemma from_dict_unfold:
  assumes fk: "resolve_force_kernel R d = Inr fk"
    and ek: "resolve_optional (str_to_kernel_energy R) (d_energy_kernel d) = Inr ek"
    and efk: "resolve_optional (str_to_kernel_energy_force R) (d_energy_force_kernel d) = Inr efk"
    and g: "init W \<lparr> arg_kernel = fst fk, arg_kernel_grad = snd fk,
                   arg_hyps = d_hyps d, arg_cutoffs = d_cutoffs d,
                   arg_hyp_labels = d_hyp_labels d,
                   arg_energy_force_kernel = efk, arg_energy_kernel = ek,
                   arg_opt_algorithm = d_algo d, arg_maxiter = d_maxiter d,
                   arg_par = d_par d, arg_no_cpus = d_no_cpus d,
                   arg_per_atom_par = True, arg_output = None,
                   arg_multihyps = d_multihyps d,
                   arg_hyps_mask =
                     (case d_hyps_mask d of None \<Rightarrow> ArgNone | Some m \<Rightarrow> ArgDict m) \<rparr> = Inr new_gp"
    and envs: "map_err (env_from_dict R) (d_training_data d) = Inr envs"
  shows "from_dict W R d =
           Inr (new_gp\<lparr> l_mat := np_array_get (d_l_mat d),
                         l_mat_inv := np_array_get (d_l_mat_inv d),
                         alpha := np_array_get (d_alpha d),
                         ky_mat := np_array_get (d_ky_mat d),
                         ky_mat_inv := np_array_get (d_ky_mat_inv d),
                         training_data := envs,
                         training_labels := d_training_labels d,
                         likelihood := d_likelihood d,
                         likelihood_gradient := d_likelihood_gradient d,
                         training_labels_np := force_list_to_np (d_training_labels d) \<rparr>)"
  using assms by (cases fk) (simp add: from_dict_def)

lemma resolve_callable:
  "resolve_optional (spec_str_to_kernel table) (Some (KCallable f))
     = Inl (Raised ''kernel not found'')"
  by (simp add: resolve_optional_def spec_str_to_kernel_def)

text \<open>
  Claim C9 does not hold of the code for a model with an energy kernel or an
  energy/force kernel. \<^verbatim>\<open>as_dict\<close>, under its comment ``Remove the callables'',
  deletes \<^verbatim>\<open>kernel\<close> and \<^verbatim>\<open>kernel_grad\<close> only: the two energy kernels stay in the
  dictionary as function objects, and \<^verbatim>\<open>from_dict\<close> hands each of them to
  \<^verbatim>\<open>str_to_kernel\<close>. With a registry that resolves names, as described, the
  reconstruction of such a model raises: once the force kernel is resolved, the
  lookup of the function object fails, and no model is returned.
\<close>

theorem roundtrip_fails_with_energy_kernel:
  assumes "energy_kernel s \<noteq> None \<or> energy_force_kernel s \<noteq> None"
    and "str_to_kernel_energy R = spec_str_to_kernel table_e"
    and "str_to_kernel_energy_force R = spec_str_to_kernel table_ef"
  shows "from_dict W R (as_dict ead s)
           = (case resolve_force_kernel R (as_dict ead s) of
                Inl e \<Rightarrow> Inl e
              | Inr fk \<Rightarrow> Inl (Raised ''kernel not found''))"
proof (cases "resolve_force_kernel R (as_dict ead s)")
  case (Inl e)
  then show ?thesis by (simp add: from_dict_def)
next
  case (Inr fk)
  have d: "d_energy_kernel (as_dict ead s) = map_option KCallable (energy_kernel s)"
          "d_energy_force_kernel (as_dict ead s) = map_option KCallable (energy_force_kernel s)"
    by (simp_all add: as_dict_def)
  show ?thesis
  proof (cases "energy_kernel s")
    case (Some f)
    have "resolve_optional (str_to_kernel_energy R) (d_energy_kernel (as_dict ead s))
            = Inl (Raised ''kernel not found'')"
      by (simp add: d Some assms(2) resolve_callable)
    with Inr show ?thesis by (cases fk) (simp add: from_dict_def)
  next
    case None
    with assms(1) obtain f where f: "energy_force_kernel s = Some f" by auto
    have a: "resolve_optional (str_to_kernel_energy R) (d_energy_kernel (as_dict ead s))
            = Inr None"
      by (simp add: d None resolve_optional_def)
    have b: "resolve_optional (str_to_kernel_energy_force R)
               (d_energy_force_kernel (as_dict ead s)) = Inl (Raised ''kernel not found'')"
      by (simp add: d f assms(3) resolve_callable)
    from Inr a b show ?thesis by (cases fk) (simp add: from_dict_def)
  qed
qed

text \<open>
  A model with both energy kernels, written and read back with a registry that
  knows the force kernel and holds an energy kernel under a name: \<^verbatim>\<open>from_dict\<close>
  raises.
\<close>

theorem roundtrip_fails_with_energy_kernel_witness:
  "from_dict demo_wide demo_registry (as_dict (\<lambda>e. e) demo_stale)
     = Inl (Raised ''kernel not found'')"
proof -
  have a: "energy_kernel demo_stale \<noteq> None \<or> energy_force_kernel demo_stale \<noteq> None"
    by (simp add: demo_stale_def)
  have b: "str_to_kernel_energy demo_registry = spec_str_to_kernel demo_energy_table"
    by (simp add: demo_registry_def)
  have c: "str_to_kernel_energy_force demo_registry = spec_str_to_kernel demo_energy_force_table"
    by (simp add: demo_registry_def)
  have f: "resolve_force_kernel demo_registry (as_dict (\<lambda>e. e) demo_stale)
             = Inr ((''two_body'', demo_kernel), demo_kernel_grad)"
    by (simp add: resolve_force_kernel_def as_dict_def demo_registry_def demo_stale_def
          demo_factorized_def demo_gp_def init_fields_def demo_args_def)
  show ?thesis
    using roundtrip_fails_with_energy_kernel [OF a b c, of demo_wide "\<lambda>e. e"]
    by (simp add: f)
qed

text \<open>
  What the two functions do beside that: when the registry resolves the entries
  of the dictionary (which a registry of names does for a model without energy
  kernels), the environments are read back and the mask of the model, if any,
  holds signed 64-bit integers and satisfies the relations the constructor
  checks, \<^verbatim>\<open>from_dict\<close> of \<^verbatim>\<open>as_dict\<close> of the model yields a model with the same
  hyperparameters and training labels (the flat label vector is recomputed from
  them) and, when \<^verbatim>\<open>alpha\<close> or \<^verbatim>\<open>ky_mat\<close> is an array, the same array.
\<close>

lemma roundtrip_when_resolved:
  assumes fk: "resolve_force_kernel R (as_dict ead s) = Inr fk"
    and ek: "resolve_optional (str_to_kernel_energy R) (map_option KCallable (energy_kernel s))
               = Inr ek"
    and efk: "resolve_optional (str_to_kernel_energy_force R)
                (map_option KCallable (energy_force_kernel s)) = Inr efk"
    and mk: "multihyps s \<longrightarrow>
               (\<forall>m. hyps_mask s = Some m \<longrightarrow> mask_int64 m \<and> mask_relations m (length (hyps s)))"
    and envs: "map_err (env_from_dict R) (map ead (training_data s)) = Inr envs"
  shows "\<exists>s'. from_dict W R (as_dict ead s) = Inr s'
           \<and> hyps s' = hyps s
           \<and> training_labels s' = training_labels s
           \<and> training_labels_np s' = force_list_to_np (training_labels s)
           \<and> (\<forall>a. alpha s = Nd a \<longrightarrow> alpha s' = Nd a)
           \<and> (\<forall>k. ky_mat s = Nd k \<longrightarrow> ky_mat s' = Nd k)"
proof -
  let ?d = "as_dict ead s"
  let ?args = "\<lparr> arg_kernel = fst fk, arg_kernel_grad = snd fk,
                   arg_hyps = d_hyps ?d, arg_cutoffs = d_cutoffs ?d,
                   arg_hyp_labels = d_hyp_labels ?d,
                   arg_energy_force_kernel = efk, arg_energy_kernel = ek,
                   arg_opt_algorithm = d_algo ?d, arg_maxiter = d_maxiter ?d,
                   arg_par = d_par ?d, arg_no_cpus = d_no_cpus ?d,
                   arg_per_atom_par = True, arg_output = None,
                   arg_multihyps = d_multihyps ?d,
                   arg_hyps_mask =
                     (case d_hyps_mask ?d of None \<Rightarrow> ArgNone | Some m \<Rightarrow> ArgDict m) \<rparr>"
  have d: "d_hyps ?d = hyps s" "d_training_labels ?d = training_labels s"
          "d_alpha ?d = Some (alpha s)" "d_ky_mat ?d = Some (ky_mat s)"
          "d_energy_kernel ?d = map_option KCallable (energy_kernel s)"
          "d_energy_force_kernel ?d = map_option KCallable (energy_force_kernel s)"
          "d_training_data ?d = map ead (training_data s)"
          "d_multihyps ?d = multihyps s" "d_hyps_mask ?d = hyps_mask s"
    by (simp_all add: as_dict_def)
  have "arg_multihyps ?args \<longrightarrow>
          (\<forall>m. arg_hyps_mask ?args = ArgDict m \<longrightarrow>
               mask_int64 m \<and> mask_relations m (length (arg_hyps ?args)))"
    using mk by (auto simp: d split: option.splits)
  from init_total [OF this] obtain new_gp where g: "init W ?args = Inr new_gp" by blast
  from init_hyps [OF g] have h: "hyps new_gp = hyps s" by (simp add: d)
  let ?s' = "new_gp\<lparr> l_mat := np_array_get (d_l_mat ?d),
                         l_mat_inv := np_array_get (d_l_mat_inv ?d),
                         alpha := np_array_get (d_alpha ?d),
                         ky_mat := np_array_get (d_ky_mat ?d),
                         ky_mat_inv := np_array_get (d_ky_mat_inv ?d),
                         training_data := envs,
                         training_labels := d_training_labels ?d,
                         likelihood := d_likelihood ?d,
                         likelihood_gradient := d_likelihood_gradient ?d,
                         training_labels_np := force_list_to_np (d_training_labels ?d) \<rparr>"
  have f: "from_dict W R ?d = Inr ?s'"
    by (rule from_dict_unfold [OF fk _ _ g]) (simp_all add: d ek efk envs)
  have p1: "hyps ?s' = hyps s" using h by simp
  have p2: "training_labels ?s' = training_labels s" by (simp add: d)
  have p3: "training_labels_np ?s' = force_list_to_np (training_labels s)" by (simp add: d)
  have p4: "\<forall>a. alpha s = Nd a \<longrightarrow> alpha ?s' = Nd a" by (simp add: d)
  have p5: "\<forall>k. ky_mat s = Nd k \<longrightarrow> ky_mat ?s' = Nd k" by (simp add: d)
  show ?thesis
    by (rule exI [of _ ?s']) (intro conjI f p1 p2 p3 p4 p5)
qed

lemma demo_roundtrip_hyps:
  "resolve_force_kernel demo_registry (as_dict (\<lambda>e. e) demo_factorized)
     = Inr ((''two_body'', demo_kernel), demo_kernel_grad)"
  "resolve_optional (str_to_kernel_energy demo_registry)
     (map_option KCallable (energy_kernel demo_factorized)) = Inr None"
  "resolve_optional (str_to_kernel_energy_force demo_registry)
     (map_option KCallable (energy_force_kernel demo_factorized)) = Inr None"
  "multihyps demo_factorized \<longrightarrow>
     (\<forall>m. hyps_mask demo_factorized = Some m \<longrightarrow>
          mask_int64 m \<and> mask_relations m (length (hyps demo_factorized)))"
  "map_err (env_from_dict demo_registry) (map (\<lambda>e. e) (training_data demo_factorized)) = Inr []"
  by (simp_all add: resolve_force_kernel_def resolve_optional_def as_dict_def demo_registry_def
        demo_factorized_def demo_gp_def init_fields_def demo_args_def)

text \<open>
  The factorized model, which has no energy kernel, written and read back:
  hyperparameters, \<^verbatim>\<open>alpha\<close> and \<^verbatim>\<open>ky_mat\<close> are the ones it had.
\<close>

lemma roundtrip_when_resolved_demo:
  "\<exists>s'. from_dict demo_wide demo_registry (as_dict (\<lambda>e. e) demo_factorized) = Inr s'
         \<and> hyps s' = [1, 1] \<and> alpha s' = Nd [2] \<and> ky_mat s' = Nd [[1]]"
proof -
  from roundtrip_when_resolved [OF demo_roundtrip_hyps]
  obtain s' where k: "from_dict demo_wide demo_registry (as_dict (\<lambda>e. e) demo_factorized) = Inr s'"
      "hyps s' = hyps demo_factorized"
      "\<forall>a. alpha demo_factorized = Nd a \<longrightarrow> alpha s' = Nd a"
      "\<forall>k. ky_mat demo_factorized = Nd k \<longrightarrow> ky_mat s' = Nd k"
    by blast
  have v: "hyps demo_factorized = [1, 1]" "alpha demo_factorized = Nd [2]"
          "ky_mat demo_factorized = Nd [[1]]"
    by (simp_all add: demo_factorized_def demo_gp_def init_fields_def demo_args_def)
  from k(3) v(2) have a: "alpha s' = Nd [2]" by blast
  from k(4) v(3) have b: "ky_mat s' = Nd [[1]]" by blast
  from k(2) v(1) have c: "hyps s' = [1, 1]" by simp
  show ?thesis by (rule exI [of _ s']) (intro conjI k(1) a b c)
qed

section \<open>The incremental update against the full rebuild\<close>


















end
